theory Spec2Isabelle
  imports Complex_Main "HOL-Library.Word" "HOL-Library.Monad_Syntax"
begin

section \<open>Machine types and constants of SelfAdjusting\_I2C.h\<close>

text \<open>
  The fixed-width integers of the source are words: \<open>+\<close>, \<open>-\<close>, \<open>*\<close> wrap around,
  \<open>div\<close> and the order are the unsigned ones, as for \<open>uint8_t\<close>, \<open>uint16_t\<close> and
  \<open>uint32_t\<close> in C++. The \<open>int8_t\<close> deltas of a decision only ever hold the
  constants -1, 0 and 1 and are compared with 0; they are integers.
\<close>

type_synonym u8 = "8 word"
type_synonym u16 = "16 word"
type_synonym u32 = "32 word"

definition LEARNING_WINDOW_SIZE :: nat where [simp]: "LEARNING_WINDOW_SIZE = 10"
definition ERROR_THRESHOLD :: u8 where [simp]: "ERROR_THRESHOLD = 3"
definition PERFORMANCE_SAMPLES :: u32 where [simp]: "PERFORMANCE_SAMPLES = 5"
definition MAX_DEVICES :: u8 where [simp]: "MAX_DEVICES = 16"
definition DYNAMIC_RANGE_STEPS :: u8 where [simp]: "DYNAMIC_RANGE_STEPS = 20"

section \<open>Single-precision arithmetic of the dynamic ranges\<close>

text \<open>
  \<open>DynamicRange::step_size\<close> is a \<open>float\<close>, and both conversions between steps and
  values truncate a \<open>float\<close> result to an integer, so one rounding error of the
  product or the quotient can move the result by one. The range arithmetic is
  therefore modelled with the rounding of IEEE binary32: a \<open>float\<close> is the rational
  number it denotes, and every operation rounds its exact result to the nearest number
  with a 24-bit significand, ties to the even significand. The exponent is not bounded:
  the magnitudes that occur (step sizes, values below \<open>2 ^ 32\<close>, quotients of them)
  are far from overflow and from the subnormal numbers. Only non-negative numbers occur.
\<close>

function bitlen_int :: "int \<Rightarrow> int" where
  "bitlen_int a = (if a \<le> 0 then 0 else 1 + bitlen_int (a div 2))"
  by pat_completeness auto
termination
  by (relation "measure nat") auto

definition pow2 :: "int \<Rightarrow> rat" where
  "pow2 e = (if 0 \<le> e then 2 ^ nat e else 1 / 2 ^ nat (- e))"

text \<open>The exponent of a positive rational: the \<open>d\<close> with \<open>2 ^ d \<le> q < 2 ^ (d + 1)\<close>.\<close>

definition floor_log2 :: "rat \<Rightarrow> int" where
  "floor_log2 q = (let (a, b) = quotient_of q;
                       d = bitlen_int a - bitlen_int b
                   in if pow2 d \<le> q then d else d - 1)"

definition round_even :: "rat \<Rightarrow> int" where
  "round_even q = (let f = \<lfloor>q\<rfloor>; r = q - of_int f
                   in if r < 1 / 2 then f else if 1 / 2 < r then f + 1
                      else if even f then f else f + 1)"

definition f32 :: "rat \<Rightarrow> rat" where
  "f32 q = (if q \<le> 0 then 0
            else let e = floor_log2 q - 23 in of_int (round_even (q / pow2 e)) * pow2 e)"

text \<open>
  Conversion of a non-negative \<open>float\<close> to an unsigned integer truncates. A value that
  does not fit is undefined behaviour in C++; the model wraps it.
\<close>

definition float_to_u32 :: "rat \<Rightarrow> u32" where
  "float_to_u32 q = word_of_int \<lfloor>q\<rfloor>"

definition float_to_u8 :: "rat \<Rightarrow> u8" where
  "float_to_u8 q = word_of_int \<lfloor>q\<rfloor>"

definition u32_to_float :: "u32 \<Rightarrow> rat" where
  "u32_to_float w = f32 (of_int (uint w))"

section \<open>Data model\<close>

record DynamicRange =
  min_value :: u32
  max_value :: u32
  current_value :: u32
  default_value :: u32
  current_step :: u8
  optimal_step :: u8
  step_size :: rat

text \<open>The two static ranges as their initialisers give them (\<open>step_size\<close> is 0.0 there).\<close>

definition clockSpeedRange_static :: DynamicRange where
  "clockSpeedRange_static =
     \<lparr>min_value = 75000, max_value = 3500000, current_value = 100000,
      default_value = 100000, current_step = 1, optimal_step = 1, step_size = 0\<rparr>"

definition riseTimeRange_static :: DynamicRange where
  "riseTimeRange_static =
     \<lparr>min_value = 40, max_value = 250, current_value = 125,
      default_value = 125, current_step = 8, optimal_step = 8, step_size = 0\<rparr>"

record I2CPerformanceMetrics =
  successfulTransactions :: u32
  failedTransactions :: u32
  totalTransactionTime :: u32
  averageTransactionTime :: u32
  errorRate :: u8
  stabilityScore :: u8
  lastUpdateTime :: u32

record I2CConfig =
  clockSpeedStep :: u8
  riseTimeStep :: u8
  clockSpeed :: u32
  riseTime :: u16
  metrics :: I2CPerformanceMetrics
  isValid :: bool

record DeviceConfig =
  address :: u8
  config :: I2CConfig
  hasCustomConfig :: bool

record AIDecision =
  clockSpeedDelta :: int
  riseTimeDelta :: int
  confidence :: u8
  shouldAdjust :: bool
  reason :: string

datatype I2CErrorType =
  ERROR_NONE | ERROR_TIMEOUT | ERROR_NACK_ADDRESS | ERROR_NACK_DATA | ERROR_OTHER

fun error_code :: "I2CErrorType \<Rightarrow> u8" where
  "error_code ERROR_NONE = 0"
| "error_code ERROR_TIMEOUT = 1"
| "error_code ERROR_NACK_ADDRESS = 2"
| "error_code ERROR_NACK_DATA = 3"
| "error_code ERROR_OTHER = 4"

text \<open>
  The controller object together with what it shares with its environment: the two
  static ranges \<open>clockSpeedRange\<close> and \<open>riseTimeRange\<close>, which every member function
  reads and writes in place, and \<open>hardwareLog\<close>, the sequence of (clock speed, rise time)
  pairs that \<open>applyConfiguration\<close> has handed to \<open>setHardwareClockSpeed\<close> (that is
  \<open>Wire.setClock\<close>) and \<open>setHardwareRiseTime\<close>, oldest first. The arrays
  \<open>performanceHistory\<close>, \<open>deviceConfigs\<close> and \<open>errorHistory\<close> are lists of length
  10, 16 and 10. The scores are \<open>float\<close>s in the source; they only feed weighted
  sums and comparisons, never a conversion to an integer, and are modelled by exact
  real arithmetic.
\<close>

record SelfAdjustingI2C =
  currentConfig :: I2CConfig
  bestConfig :: I2CConfig
  performanceHistory :: "I2CPerformanceMetrics list"
  deviceConfigs :: "DeviceConfig list"
  historyIndex :: u8
  consecutiveErrors :: u8
  deviceCount :: u8
  lastAdjustmentTime :: u32
  adjustmentCooldown :: u32
  lastErrorTime :: u32
  learningMode :: bool
  emergencyRecovery :: bool
  adaptiveMode :: bool
  performanceScore :: real
  trendAnalysis :: real
  adaptationRate :: u8
  currentDeviceAddress :: u8
  lastError :: I2CErrorType
  errorHistory :: "u8 list"
  errorHistoryIndex :: u8
  clockSpeedRange :: DynamicRange
  riseTimeRange :: DynamicRange
  hardwareLog :: "(u32 \<times> u16) list"

text \<open>What \<open>memset(..., 0, ...)\<close> leaves in a structure.\<close>

definition zero_metrics :: I2CPerformanceMetrics where
  "zero_metrics =
     \<lparr>successfulTransactions = 0, failedTransactions = 0, totalTransactionTime = 0,
      averageTransactionTime = 0, errorRate = 0, stabilityScore = 0, lastUpdateTime = 0\<rparr>"

definition zero_config :: I2CConfig where
  "zero_config =
     \<lparr>clockSpeedStep = 0, riseTimeStep = 0, clockSpeed = 0, riseTime = 0,
      metrics = zero_metrics, isValid = False\<rparr>"

definition zero_device :: DeviceConfig where
  "zero_device = \<lparr>address = 0, config = zero_config, hasCustomConfig = False\<rparr>"

section \<open>Dynamic range model\<close>

definition calculateValueFromStep :: "DynamicRange \<Rightarrow> u8 \<Rightarrow> u32" where
  "calculateValueFromStep rng step =
     (let step' = (if step \<ge> DYNAMIC_RANGE_STEPS then DYNAMIC_RANGE_STEPS - 1 else step)
      in min_value rng + float_to_u32 (f32 (of_int (uint step') * step_size rng)))"

text \<open>
  The quotient is formed only for \<open>min_value < val < max_value\<close>. With the step size
  that \<open>initializeDynamicRanges\<close> computes it is then below 20. A step size of 0.0 (a
  range that was never initialised) would make the C++ quotient infinite and its
  conversion undefined; the model's quotient is 0 there.
\<close>

definition calculateStepFromValue :: "DynamicRange \<Rightarrow> u32 \<Rightarrow> u8" where
  "calculateStepFromValue rng val =
     (if val \<le> min_value rng then 0
      else if val \<ge> max_value rng then DYNAMIC_RANGE_STEPS - 1
      else let step = float_to_u8 (f32 (u32_to_float (val - min_value rng) / step_size rng))
           in min step (DYNAMIC_RANGE_STEPS - 1))"

definition updateDynamicRange :: "DynamicRange \<Rightarrow> u8 \<Rightarrow> DynamicRange" where
  "updateDynamicRange rng newStep =
     (if newStep < DYNAMIC_RANGE_STEPS
      then rng\<lparr>current_step := newStep,
                 current_value := calculateValueFromStep rng newStep\<rparr>
      else rng)"

text \<open>
  \<open>initializeDynamicRanges\<close> on one range: the step size, then the current step from the
  default value (computed with the new step size), then the optimal step.
\<close>

definition initializeDynamicRange :: "DynamicRange \<Rightarrow> DynamicRange" where
  "initializeDynamicRange rng =
     (let r1 = rng\<lparr>step_size :=
                  f32 (u32_to_float (max_value rng - min_value rng)
                       / of_int (uint (DYNAMIC_RANGE_STEPS - 1)))\<rparr>;
          r2 = r1\<lparr>current_step := calculateStepFromValue r1 (default_value r1)\<rparr>
      in r2\<lparr>optimal_step := current_step r2\<rparr>)"

definition clockSpeedRange_init :: DynamicRange where
  "clockSpeedRange_init = initializeDynamicRange clockSpeedRange_static"

definition riseTimeRange_init :: DynamicRange where
  "riseTimeRange_init = initializeDynamicRange riseTimeRange_static"

section \<open>Device registry and error history\<close>

text \<open>
  \<open>findDeviceConfig\<close> returns a pointer into \<open>deviceConfigs\<close> or \<open>nullptr\<close>; the model
  returns the index of the entry or \<open>None\<close>.
\<close>

function findDeviceConfig_loop :: "SelfAdjustingI2C \<Rightarrow> u8 \<Rightarrow> nat \<Rightarrow> nat option" where
  "findDeviceConfig_loop s a i =
     (if i < unat (deviceCount s)
      then (if address (deviceConfigs s ! i) = a then Some i
            else findDeviceConfig_loop s a (Suc i))
      else None)"
  by pat_completeness auto
termination
  by (relation "measure (\<lambda>(s, a, i). unat (deviceCount s) - i)") auto

definition findDeviceConfig :: "SelfAdjustingI2C \<Rightarrow> u8 \<Rightarrow> nat option" where
  "findDeviceConfig s a = findDeviceConfig_loop s a 0"

definition addDeviceConfig :: "u8 \<Rightarrow> SelfAdjustingI2C \<Rightarrow> SelfAdjustingI2C" where
  "addDeviceConfig a s =
     (if deviceCount s < MAX_DEVICES
      then s\<lparr>deviceConfigs := (deviceConfigs s)[unat (deviceCount s) :=
                  \<lparr>address = a, config = currentConfig s, hasCustomConfig = False\<rparr>],
             deviceCount := deviceCount s + 1\<rparr>
      else s)"

text \<open>The index is advanced in \<open>int\<close> arithmetic: \<open>(errorHistoryIndex + 1) % 10\<close>.\<close>

definition updateErrorHistory :: "I2CErrorType \<Rightarrow> SelfAdjustingI2C \<Rightarrow> SelfAdjustingI2C" where
  "updateErrorHistory e s =
     s\<lparr>errorHistory := (errorHistory s)[unat (errorHistoryIndex s) := error_code e],
       errorHistoryIndex := of_nat ((unat (errorHistoryIndex s) + 1) mod 10)\<rparr>"

definition getRecentErrorRate :: "SelfAdjustingI2C \<Rightarrow> real" where
  "getRecentErrorRate s =
     (let errorCount = length (filter (\<lambda>e. e \<noteq> error_code ERROR_NONE) (take 10 (errorHistory s)))
      in (real errorCount / 10) * 100)"

definition isStepValid :: "u8 \<Rightarrow> bool" where
  "isStepValid step \<longleftrightarrow> step < DYNAMIC_RANGE_STEPS"

section \<open>Performance score\<close>

text \<open>
  \<open>calculateReliabilityScore\<close> and \<open>calculateEfficiencyScore\<close> take no argument: they
  read the metrics of \<open>currentConfig\<close>.
\<close>

definition calculateReliabilityScore :: "SelfAdjustingI2C \<Rightarrow> real" where
  "calculateReliabilityScore s =
     (let total = successfulTransactions (metrics (currentConfig s))
                  + failedTransactions (metrics (currentConfig s))
      in if total = 0 then 0
         else real (unat (successfulTransactions (metrics (currentConfig s))))
              / real (unat total) * 100)"

definition calculateEfficiencyScore :: "SelfAdjustingI2C \<Rightarrow> real" where
  "calculateEfficiencyScore s =
     (if averageTransactionTime (metrics (currentConfig s)) = 0 then 0
      else let baseTime = 1000;
               normalizedTime = real (unat (averageTransactionTime (metrics (currentConfig s))))
                                / baseTime
           in max 0 (100 / (1 + normalizedTime)))"

text \<open>
  \<open>calculatePerformanceScore\<close> calls \<open>calculateStabilityScore\<close>, whose two loops call
  \<open>calculatePerformanceScore\<close> on the history entries: the recursion is mutual and
  nothing bounds it, so the functions are partial. They are one partial function over
  the four kinds of call; \<open>None\<close> is the recursion that never returns. \<open>MeanLoop i mean\<close>
  and \<open>VarianceLoop i mean variance\<close> are the two \<open>for\<close> loops of
  \<open>calculateStabilityScore\<close> at counter \<open>i\<close>.
\<close>

datatype score_call =
  PerformanceScore I2CPerformanceMetrics
| StabilityScore
| MeanLoop nat real
| VarianceLoop nat real real

definition history_samples :: "SelfAdjustingI2C \<Rightarrow> nat" where
  "history_samples s = min (unat (historyIndex s)) LEARNING_WINDOW_SIZE"

partial_function (option) score_eval :: "SelfAdjustingI2C \<Rightarrow> score_call \<Rightarrow> real option" where
  "score_eval s c =
     (case c of
        PerformanceScore m \<Rightarrow>
          if successfulTransactions m = 0 then Some 0
          else do {
            let reliabilityScore = calculateReliabilityScore s;
            let efficiencyScore = calculateEfficiencyScore s;
            stabilityScore \<leftarrow> score_eval s StabilityScore;
            Some (reliabilityScore * 0.6 + efficiencyScore * 0.25 + stabilityScore * 0.15)
          }
      | StabilityScore \<Rightarrow>
          if historyIndex s < 3 then Some 50
          else do {
            total \<leftarrow> score_eval s (MeanLoop 0 0);
            let mean = total / real (history_samples s);
            squares \<leftarrow> score_eval s (VarianceLoop 0 mean 0);
            let variance = squares / real (history_samples s);
            Some (max 0 (100 - sqrt variance))
          }
      | MeanLoop i mean \<Rightarrow>
          if i < history_samples s
          then do {
            score \<leftarrow> score_eval s (PerformanceScore (performanceHistory s ! i));
            score_eval s (MeanLoop (Suc i) (mean + score))
          }
          else Some mean
      | VarianceLoop i mean variance \<Rightarrow>
          if i < history_samples s
          then do {
            score \<leftarrow> score_eval s (PerformanceScore (performanceHistory s ! i));
            score_eval s (VarianceLoop (Suc i) mean (variance + (score - mean) * (score - mean)))
          }
          else Some variance)"

definition calculatePerformanceScore ::
  "SelfAdjustingI2C \<Rightarrow> I2CPerformanceMetrics \<Rightarrow> real option" where
  "calculatePerformanceScore s m = score_eval s (PerformanceScore m)"

definition calculateStabilityScore :: "SelfAdjustingI2C \<Rightarrow> real option" where
  "calculateStabilityScore s = score_eval s StabilityScore"

text \<open>
  \<open>analyzeTrend\<close>: the mean of the consecutive score differences over the history
  window; the loop runs over \<open>i = 1, ..., samples - 1\<close>.
\<close>

fun analyzeTrend_loop :: "SelfAdjustingI2C \<Rightarrow> nat list \<Rightarrow> real \<Rightarrow> real option" where
  "analyzeTrend_loop s [] trend = Some trend"
| "analyzeTrend_loop s (i # rest) trend =
     do {
       currentScore \<leftarrow> calculatePerformanceScore s (performanceHistory s ! i);
       previousScore \<leftarrow> calculatePerformanceScore s (performanceHistory s ! (i - 1));
       analyzeTrend_loop s rest (trend + (currentScore - previousScore))
     }"

definition analyzeTrend :: "SelfAdjustingI2C \<Rightarrow> real option" where
  "analyzeTrend s =
     (if historyIndex s < 3 then Some 0
      else do {
        trend \<leftarrow> analyzeTrend_loop s [1..<history_samples s] 0;
        Some (trend / real (history_samples s - 1))
      })"

section \<open>Configuration management\<close>

definition applyConfiguration :: "SelfAdjustingI2C \<Rightarrow> SelfAdjustingI2C" where
  "applyConfiguration s =
     s\<lparr>hardwareLog := hardwareLog s @ [(clockSpeed (currentConfig s), riseTime (currentConfig s))]\<rparr>"

definition saveCurrentAsBest :: "SelfAdjustingI2C \<Rightarrow> SelfAdjustingI2C" where
  "saveCurrentAsBest s = s\<lparr>bestConfig := currentConfig s\<rparr>"

definition restoreBestConfiguration :: "SelfAdjustingI2C \<Rightarrow> SelfAdjustingI2C" where
  "restoreBestConfiguration s = applyConfiguration (s\<lparr>currentConfig := bestConfig s\<rparr>)"

text \<open>An assignment to fields of \<open>currentConfig.metrics\<close>.\<close>

definition update_current_metrics ::
  "(I2CPerformanceMetrics \<Rightarrow> I2CPerformanceMetrics) \<Rightarrow> SelfAdjustingI2C \<Rightarrow> SelfAdjustingI2C" where
  "update_current_metrics f s =
     s\<lparr>currentConfig := (currentConfig s)\<lparr>metrics := f (metrics (currentConfig s))\<rparr>\<rparr>"

definition applyDeviceConfiguration :: "u8 \<Rightarrow> SelfAdjustingI2C \<Rightarrow> SelfAdjustingI2C" where
  "applyDeviceConfiguration a s =
     (case findDeviceConfig s a of
        None \<Rightarrow> s
      | Some i \<Rightarrow>
          let deviceConfig = deviceConfigs s ! i
          in if hasCustomConfig deviceConfig
                \<and> (clockSpeed (currentConfig s) \<noteq> clockSpeed (config deviceConfig)
                   \<or> riseTime (currentConfig s) \<noteq> riseTime (config deviceConfig))
             then applyConfiguration
                    (s\<lparr>currentConfig := (currentConfig s)
                         \<lparr>clockSpeedStep := clockSpeedStep (config deviceConfig),
                          riseTimeStep := riseTimeStep (config deviceConfig),
                          clockSpeed := clockSpeed (config deviceConfig),
                          riseTime := riseTime (config deviceConfig)\<rparr>\<rparr>)
             else s)"

section \<open>Metrics update\<close>

text \<open>
  Every \<open>millis()\<close> reading that a function takes is its parameter \<open>now\<close>; the readings
  within one call are taken to be equal. \<open>micros()\<close> only yields the elapsed time of a
  transaction, the parameter \<open>transactionTime\<close>.
\<close>

text \<open>
  \<open>updatePerformanceMetrics\<close> up to its last statement: the counters, the device entry,
  the rates and the time stamp.
\<close>

definition updatePerformanceMetrics_counters ::
  "bool \<Rightarrow> u32 \<Rightarrow> u8 \<Rightarrow> u32 \<Rightarrow> SelfAdjustingI2C \<Rightarrow> SelfAdjustingI2C" where
  "updatePerformanceMetrics_counters success transactionTime deviceAddress now s =
     (let s1 = (if success
                then (update_current_metrics
                        (\<lambda>m. m\<lparr>successfulTransactions := successfulTransactions m + 1,
                                totalTransactionTime := totalTransactionTime m + transactionTime\<rparr>) s)
                     \<lparr>consecutiveErrors := 0\<rparr>
                else (update_current_metrics
                        (\<lambda>m. m\<lparr>failedTransactions := failedTransactions m + 1\<rparr>) s)
                     \<lparr>consecutiveErrors := consecutiveErrors s + 1\<rparr>);
          s2 = (if adaptiveMode s1
                then let (sa, deviceConfig) =
                           (case findDeviceConfig s1 deviceAddress of
                              None \<Rightarrow> (let sa = addDeviceConfig deviceAddress s1
                                        in (sa, findDeviceConfig sa deviceAddress))
                            | Some i \<Rightarrow> (s1, Some i))
                     in (case deviceConfig of
                           None \<Rightarrow> sa
                         | Some i \<Rightarrow>
                             let d = deviceConfigs sa ! i;
                                 m = metrics (config d);
                                 m' = (if success
                                       then m\<lparr>successfulTransactions := successfulTransactions m + 1,
                                              totalTransactionTime :=
                                                totalTransactionTime m + transactionTime\<rparr>
                                       else m\<lparr>failedTransactions := failedTransactions m + 1\<rparr>)
                             in sa\<lparr>deviceConfigs :=
                                     (deviceConfigs sa)[i := d\<lparr>config := (config d)\<lparr>metrics := m'\<rparr>\<rparr>]\<rparr>)
                else s1);
          totalTransactions = successfulTransactions (metrics (currentConfig s2))
                              + failedTransactions (metrics (currentConfig s2));
          s3 = (if totalTransactions > 0
                then update_current_metrics
                       (\<lambda>m. let m1 = m\<lparr>errorRate :=
                                         ucast ((failedTransactions m * 100) div totalTransactions)\<rparr>
                             in if successfulTransactions m1 > 0
                                then m1\<lparr>averageTransactionTime :=
                                          totalTransactionTime m1 div successfulTransactions m1\<rparr>
                                else m1) s2
                else s2)
      in update_current_metrics (\<lambda>m. m\<lparr>lastUpdateTime := now\<rparr>) s3)"

text \<open>The last statement stores the score of the updated metrics.\<close>

definition updatePerformanceMetrics ::
  "bool \<Rightarrow> u32 \<Rightarrow> u8 \<Rightarrow> u32 \<Rightarrow> SelfAdjustingI2C \<Rightarrow> SelfAdjustingI2C option" where
  "updatePerformanceMetrics success transactionTime deviceAddress now s =
     (let s4 = updatePerformanceMetrics_counters success transactionTime deviceAddress now s
      in do {
        score \<leftarrow> calculatePerformanceScore s4 (metrics (currentConfig s4));
        Some (s4\<lparr>performanceScore := score\<rparr>)
      })"

section \<open>Decision engine\<close>

definition no_adjustment :: AIDecision where
  "no_adjustment =
     \<lparr>clockSpeedDelta = 0, riseTimeDelta = 0, confidence = 0, shouldAdjust = False,
      reason = ''No adjustment needed''\<rparr>"

text \<open>
  The decision and the state it leaves: two branches write the controller
  (\<open>saveCurrentAsBest\<close>, \<open>restoreBestConfiguration\<close>). The three scores are computed
  before the first rule is looked at, so the call returns only if they do.
\<close>

definition analyzePerformanceAndDecide ::
  "u32 \<Rightarrow> SelfAdjustingI2C \<Rightarrow> (AIDecision \<times> SelfAdjustingI2C) option" where
  "analyzePerformanceAndDecide now s =
     (if now - lastAdjustmentTime s < adjustmentCooldown s
      then Some (no_adjustment\<lparr>reason := ''Cooldown period active''\<rparr>, s)
      else do {
        currentScore \<leftarrow> calculatePerformanceScore s (metrics (currentConfig s));
        bestScore \<leftarrow> calculatePerformanceScore s (metrics (bestConfig s));
        trend \<leftarrow> analyzeTrend s;
        let recentErrorRate = getRecentErrorRate s;
        if recentErrorRate > 10
        then Some (\<lparr>clockSpeedDelta = - 1, riseTimeDelta = 1, confidence = 85,
                    shouldAdjust = True, reason = ''High error rate detected''\<rparr>, s)
        else if errorRate (metrics (currentConfig s)) = 0
                \<and> successfulTransactions (metrics (currentConfig s)) > 20
        then let (decision, s1) =
                   (if currentScore > bestScore * 1.15
                    then (no_adjustment\<lparr>reason := ''New best configuration found''\<rparr>,
                          saveCurrentAsBest s)
                    else (no_adjustment, s))
             in if trend > 0.2 \<and> adaptationRate s > 6
                then Some (decision\<lparr>clockSpeedDelta := 1, riseTimeDelta := - 1, confidence := 70,
                                   shouldAdjust := True,
                                   reason := ''Positive trend, optimizing speed''\<rparr>, s1)
                else if trend > 0.1 \<and> adaptationRate s > 3
                then Some (decision\<lparr>clockSpeedDelta := 1, riseTimeDelta := 0, confidence := 60,
                                   shouldAdjust := True, reason := ''Moderate optimization''\<rparr>, s1)
                else Some (decision, s1)
        else if currentScore < bestScore * 0.7
        then Some (\<lparr>clockSpeedDelta = 0, riseTimeDelta = 0, confidence = 95,
                    shouldAdjust = False, reason = ''Restoring best configuration''\<rparr>,
                   restoreBestConfiguration s)
        else if consecutiveErrors s \<ge> 2
        then Some (\<lparr>clockSpeedDelta = - 1, riseTimeDelta = 1, confidence = 80,
                    shouldAdjust = True, reason = ''Consecutive errors, reducing speed''\<rparr>, s)
        else Some (no_adjustment, s)
      })"

definition applyAIDecision :: "u32 \<Rightarrow> AIDecision \<Rightarrow> SelfAdjustingI2C \<Rightarrow> SelfAdjustingI2C" where
  "applyAIDecision now decision s =
     (let newClockStep0 = clockSpeedStep (currentConfig s);
          newRiseStep0 = riseTimeStep (currentConfig s);
          newClockStep =
            (if clockSpeedDelta decision > 0 \<and> newClockStep0 < DYNAMIC_RANGE_STEPS - 1
             then newClockStep0 + 1
             else if clockSpeedDelta decision < 0 \<and> newClockStep0 > 0
             then newClockStep0 - 1 else newClockStep0);
          newRiseStep =
            (if riseTimeDelta decision > 0 \<and> newRiseStep0 < DYNAMIC_RANGE_STEPS - 1
             then newRiseStep0 + 1
             else if riseTimeDelta decision < 0 \<and> newRiseStep0 > 0
             then newRiseStep0 - 1 else newRiseStep0)
      in if isStepValid newClockStep \<and> isStepValid newRiseStep
         then let clk = updateDynamicRange (clockSpeedRange s) newClockStep;
                  rise = updateDynamicRange (riseTimeRange s) newRiseStep;
                  s1 = s\<lparr>clockSpeedRange := clk, riseTimeRange := rise,
                          currentConfig := (currentConfig s)
                            \<lparr>clockSpeedStep := newClockStep, riseTimeStep := newRiseStep,
                             clockSpeed := current_value clk,
                             riseTime := ucast (current_value rise)\<rparr>\<rparr>;
                  s2 = (applyConfiguration s1)\<lparr>lastAdjustmentTime := now\<rparr>
              in update_current_metrics (\<lambda>m. zero_metrics\<lparr>lastUpdateTime := now\<rparr>) s2
         else s)"

definition shouldTriggerAdjustment :: "SelfAdjustingI2C \<Rightarrow> bool" where
  "shouldTriggerAdjustment s =
     (let totalTransactions = successfulTransactions (metrics (currentConfig s))
                              + failedTransactions (metrics (currentConfig s))
      in totalTransactions > 0 \<and> totalTransactions mod PERFORMANCE_SAMPLES = 0)"

section \<open>Recovery\<close>

definition emergencyRecoveryProcedure :: "u32 \<Rightarrow> SelfAdjustingI2C \<Rightarrow> SelfAdjustingI2C" where
  "emergencyRecoveryProcedure now s =
     (let clk = updateDynamicRange (clockSpeedRange s) 0;
          rise = updateDynamicRange (riseTimeRange s) (DYNAMIC_RANGE_STEPS - 1);
          s1 = s\<lparr>clockSpeedRange := clk, riseTimeRange := rise,
                  currentConfig := (currentConfig s)
                    \<lparr>clockSpeedStep := 0, riseTimeStep := DYNAMIC_RANGE_STEPS - 1,
                     clockSpeed := current_value clk,
                     riseTime := ucast (current_value rise)\<rparr>\<rparr>
      in (applyConfiguration s1)
           \<lparr>consecutiveErrors := 0, learningMode := False,
            lastAdjustmentTime := now, adjustmentCooldown := 15000\<rparr>)"

definition incrementalRecovery :: "SelfAdjustingI2C \<Rightarrow> SelfAdjustingI2C" where
  "incrementalRecovery s =
     (let s1 = (if clockSpeedStep (currentConfig s) > 0
                then let step = clockSpeedStep (currentConfig s) - 1;
                         clk = updateDynamicRange (clockSpeedRange s) step
                     in applyConfiguration
                          (s\<lparr>clockSpeedRange := clk,
                             currentConfig := (currentConfig s)
                               \<lparr>clockSpeedStep := step, clockSpeed := current_value clk\<rparr>\<rparr>)
                else s)
      in s1\<lparr>consecutiveErrors := 0\<rparr>)"

definition adaptiveRecovery :: "u32 \<Rightarrow> SelfAdjustingI2C \<Rightarrow> SelfAdjustingI2C" where
  "adaptiveRecovery now s =
     (let recentErrorRate = getRecentErrorRate s
      in if recentErrorRate > 20 then emergencyRecoveryProcedure now s
         else let s1 = (if clockSpeedStep (currentConfig s) > 0
                        then let step = clockSpeedStep (currentConfig s) - 1;
                                 clk = updateDynamicRange (clockSpeedRange s) step
                             in s\<lparr>clockSpeedRange := clk,
                                  currentConfig := (currentConfig s)
                                    \<lparr>clockSpeedStep := step, clockSpeed := current_value clk\<rparr>\<rparr>
                        else s);
                  s2 = (if riseTimeStep (currentConfig s1) < DYNAMIC_RANGE_STEPS - 1
                        then let step = riseTimeStep (currentConfig s1) + 1;
                                 rise = updateDynamicRange (riseTimeRange s1) step
                             in s1\<lparr>riseTimeRange := rise,
                                   currentConfig := (currentConfig s1)
                                     \<lparr>riseTimeStep := step,
                                      riseTime := ucast (current_value rise)\<rparr>\<rparr>
                        else s1)
              in (applyConfiguration s2)\<lparr>consecutiveErrors := 0\<rparr>)"

definition handleError :: "I2CErrorType \<Rightarrow> u32 \<Rightarrow> SelfAdjustingI2C \<Rightarrow> SelfAdjustingI2C" where
  "handleError errorType now s =
     (let s1 = updateErrorHistory errorType (s\<lparr>lastError := errorType, lastErrorTime := now\<rparr>)
      in if consecutiveErrors s1 \<ge> ERROR_THRESHOLD
         then (if emergencyRecovery s1 then emergencyRecoveryProcedure now s1
               else if adaptiveMode s1 then adaptiveRecovery now s1
               else incrementalRecovery s1)
         else s1)"

definition classifyError :: "u8 \<Rightarrow> I2CErrorType" where
  "classifyError wireError =
     (if wireError = 1 then ERROR_TIMEOUT
      else if wireError = 2 then ERROR_NACK_ADDRESS
      else if wireError = 3 then ERROR_NACK_DATA
      else if wireError = 4 then ERROR_OTHER
      else ERROR_NONE)"

definition isInRecoveryMode :: "SelfAdjustingI2C \<Rightarrow> bool" where
  "isInRecoveryMode s \<longleftrightarrow> consecutiveErrors s \<ge> ERROR_THRESHOLD"

section \<open>Public operations\<close>

text \<open>
  The constructor: \<open>initializeDynamicRanges\<close> on the static ranges, the current
  configuration from them, everything else zeroed or set to its default, and the best
  configuration a copy of the current one.
\<close>

definition constructor :: SelfAdjustingI2C where
  "constructor =
     (let cur = \<lparr>clockSpeedStep = current_step clockSpeedRange_init,
                 riseTimeStep = current_step riseTimeRange_init,
                 clockSpeed = current_value clockSpeedRange_init,
                 riseTime = ucast (current_value riseTimeRange_init),
                 metrics = zero_metrics, isValid = True\<rparr>
      in \<lparr>currentConfig = cur, bestConfig = cur,
          performanceHistory = replicate LEARNING_WINDOW_SIZE zero_metrics,
          deviceConfigs = replicate (unat MAX_DEVICES) zero_device,
          historyIndex = 0, consecutiveErrors = 0, deviceCount = 0,
          lastAdjustmentTime = 0, adjustmentCooldown = 5000, lastErrorTime = 0,
          learningMode = True, emergencyRecovery = True, adaptiveMode = True,
          performanceScore = 0, trendAnalysis = 0, adaptationRate = 5,
          currentDeviceAddress = 0, lastError = ERROR_NONE,
          errorHistory = replicate 10 0, errorHistoryIndex = 0,
          clockSpeedRange = clockSpeedRange_init, riseTimeRange = riseTimeRange_init,
          hardwareLog = []\<rparr>)"

text \<open>\<open>begin()\<close> and \<open>begin(address)\<close>; \<open>Wire.begin\<close> is outside the controller.\<close>

definition begin_I2C :: "u32 \<Rightarrow> SelfAdjustingI2C \<Rightarrow> SelfAdjustingI2C" where
  "begin_I2C now s = update_current_metrics (\<lambda>m. m\<lparr>lastUpdateTime := now\<rparr>) (applyConfiguration s)"

text \<open>
  Both overloads of \<open>requestFrom\<close>. \<open>result\<close> is what \<open>Wire.requestFrom\<close> returned, the
  number of bytes received; the operation returns it unchanged, the model returns the
  state.
\<close>

definition requestFrom ::
  "u8 \<Rightarrow> u8 \<Rightarrow> u32 \<Rightarrow> u32 \<Rightarrow> SelfAdjustingI2C \<Rightarrow> SelfAdjustingI2C option" where
  "requestFrom a result transactionTime now s =
     (let s0 = s\<lparr>currentDeviceAddress := a\<rparr>;
          s1 = (if adaptiveMode s0 then applyDeviceConfiguration a s0 else s0)
      in do {
        s2 \<leftarrow> updatePerformanceMetrics (result > 0) transactionTime a now s1;
        if result = 0 then Some (handleError ERROR_TIMEOUT now s2)
        else if learningMode s2 \<and> shouldTriggerAdjustment s2
        then do {
          (decision, s3) \<leftarrow> analyzePerformanceAndDecide now s2;
          if shouldAdjust decision then Some (applyAIDecision now decision s3) else Some s3
        }
        else Some s2
      })"

definition beginTransmission :: "u8 \<Rightarrow> SelfAdjustingI2C \<Rightarrow> SelfAdjustingI2C" where
  "beginTransmission a s =
     (let s0 = s\<lparr>currentDeviceAddress := a\<rparr>
      in if adaptiveMode s0 then applyDeviceConfiguration a s0 else s0)"

text \<open>
  Both overloads of \<open>endTransmission\<close>. \<open>result\<close> is the status that
  \<open>Wire.endTransmission\<close> returned, 0 for success.
\<close>

definition endTransmission ::
  "u8 \<Rightarrow> u32 \<Rightarrow> u32 \<Rightarrow> SelfAdjustingI2C \<Rightarrow> SelfAdjustingI2C option" where
  "endTransmission result transactionTime now s =
     do {
       s2 \<leftarrow> updatePerformanceMetrics (result = 0) transactionTime (currentDeviceAddress s) now s;
       if result \<noteq> 0 then Some (handleError (classifyError result) now s2)
       else if learningMode s2 \<and> shouldTriggerAdjustment s2
       then do {
         (decision, s3) \<leftarrow> analyzePerformanceAndDecide now s2;
         if shouldAdjust decision then Some (applyAIDecision now decision s3) else Some s3
       }
       else Some s2
     }"

definition enableLearning :: "bool \<Rightarrow> SelfAdjustingI2C \<Rightarrow> SelfAdjustingI2C" where
  "enableLearning enable s =
     (let s1 = s\<lparr>learningMode := enable\<rparr>
      in if enable then s1\<lparr>adjustmentCooldown := 5000\<rparr> else s1)"

definition enableAdaptiveMode :: "bool \<Rightarrow> SelfAdjustingI2C \<Rightarrow> SelfAdjustingI2C" where
  "enableAdaptiveMode enable s = s\<lparr>adaptiveMode := enable\<rparr>"

text \<open>\<open>constrain(rate, 1, 10)\<close>.\<close>

definition setAdaptationRate :: "u8 \<Rightarrow> SelfAdjustingI2C \<Rightarrow> SelfAdjustingI2C" where
  "setAdaptationRate rate s =
     s\<lparr>adaptationRate := (if rate < 1 then 1 else if rate > 10 then 10 else rate)\<rparr>"

definition enableEmergencyRecovery :: "bool \<Rightarrow> SelfAdjustingI2C \<Rightarrow> SelfAdjustingI2C" where
  "enableEmergencyRecovery enable s = s\<lparr>emergencyRecovery := enable\<rparr>"

definition setCooldownPeriod :: "u32 \<Rightarrow> SelfAdjustingI2C \<Rightarrow> SelfAdjustingI2C" where
  "setCooldownPeriod milliseconds s = s\<lparr>adjustmentCooldown := milliseconds\<rparr>"

definition forceOptimization :: "u32 \<Rightarrow> SelfAdjustingI2C \<Rightarrow> SelfAdjustingI2C option" where
  "forceOptimization now s =
     (let s1 = s\<lparr>lastAdjustmentTime := 0\<rparr>
      in if successfulTransactions (metrics (currentConfig s1)) > 0
         then do {
           (decision, s2) \<leftarrow> analyzePerformanceAndDecide now s1;
           if shouldAdjust decision then Some (applyAIDecision now decision s2) else Some s2
         }
         else Some s1)"

definition resetToDefaults :: "u32 \<Rightarrow> SelfAdjustingI2C \<Rightarrow> SelfAdjustingI2C" where
  "resetToDefaults now s =
     (let clk = updateDynamicRange (clockSpeedRange s) 0;
          rise = updateDynamicRange (riseTimeRange s) (DYNAMIC_RANGE_STEPS div 2);
          cur = (currentConfig s)
                  \<lparr>clockSpeedStep := 0, riseTimeStep := DYNAMIC_RANGE_STEPS div 2,
                   clockSpeed := current_value clk, riseTime := ucast (current_value rise),
                   isValid := True, metrics := zero_metrics\<lparr>lastUpdateTime := now\<rparr>\<rparr>;
          s1 = s\<lparr>clockSpeedRange := clk, riseTimeRange := rise, currentConfig := cur,
                  consecutiveErrors := 0, lastAdjustmentTime := 0, lastErrorTime := 0,
                  adjustmentCooldown := 5000, learningMode := True, emergencyRecovery := True,
                  adaptiveMode := True, performanceScore := 0, trendAnalysis := 0,
                  adaptationRate := 5, lastError := ERROR_NONE, errorHistoryIndex := 0,
                  errorHistory := replicate 10 0\<rparr>;
          s2 = applyConfiguration s1
      in s2\<lparr>bestConfig := currentConfig s2\<rparr>)"

definition resetLearning :: "u32 \<Rightarrow> SelfAdjustingI2C \<Rightarrow> SelfAdjustingI2C" where
  "resetLearning now s =
     (update_current_metrics (\<lambda>m. zero_metrics\<lparr>lastUpdateTime := now\<rparr>) s)
       \<lparr>performanceHistory := replicate LEARNING_WINDOW_SIZE zero_metrics, historyIndex := 0,
        performanceScore := 0, trendAnalysis := 0, consecutiveErrors := 0,
        lastAdjustmentTime := 0, errorHistory := replicate 10 0, errorHistoryIndex := 0\<rparr>"

definition setClockSpeed :: "u32 \<Rightarrow> SelfAdjustingI2C \<Rightarrow> SelfAdjustingI2C" where
  "setClockSpeed clockSpeedHz s =
     (let step = calculateStepFromValue (clockSpeedRange s) clockSpeedHz
      in if isStepValid step
         then let clk = updateDynamicRange (clockSpeedRange s) step
              in applyConfiguration
                   (s\<lparr>clockSpeedRange := clk,
                      currentConfig := (currentConfig s)
                        \<lparr>clockSpeedStep := step, clockSpeed := current_value clk\<rparr>\<rparr>)
         else s)"

definition setRiseTime :: "u16 \<Rightarrow> SelfAdjustingI2C \<Rightarrow> SelfAdjustingI2C" where
  "setRiseTime riseTimeNs s =
     (let step = calculateStepFromValue (riseTimeRange s) (ucast riseTimeNs)
      in if isStepValid step
         then let rise = updateDynamicRange (riseTimeRange s) step
              in applyConfiguration
                   (s\<lparr>riseTimeRange := rise,
                      currentConfig := (currentConfig s)
                        \<lparr>riseTimeStep := step, riseTime := ucast (current_value rise)\<rparr>\<rparr>)
         else s)"

definition setDeviceSpecificConfig ::
  "u8 \<Rightarrow> u32 \<Rightarrow> u16 \<Rightarrow> SelfAdjustingI2C \<Rightarrow> SelfAdjustingI2C" where
  "setDeviceSpecificConfig a clockSpeedHz riseTimeNs s =
     (let (s1, deviceConfig) =
            (case findDeviceConfig s a of
               None \<Rightarrow> (let s1 = addDeviceConfig a s in (s1, findDeviceConfig s1 a))
             | Some i \<Rightarrow> (s, Some i))
      in case deviceConfig of
           None \<Rightarrow> s1
         | Some i \<Rightarrow>
             let clockStep = calculateStepFromValue (clockSpeedRange s1) clockSpeedHz;
                 riseStep = calculateStepFromValue (riseTimeRange s1) (ucast riseTimeNs)
             in if isStepValid clockStep \<and> isStepValid riseStep
                then let clk = updateDynamicRange (clockSpeedRange s1) clockStep;
                         rise = updateDynamicRange (riseTimeRange s1) riseStep;
                         d = deviceConfigs s1 ! i
                     in s1\<lparr>clockSpeedRange := clk, riseTimeRange := rise,
                           deviceConfigs := (deviceConfigs s1)[i :=
                             d\<lparr>config := (config d)
                                  \<lparr>clockSpeedStep := clockStep, riseTimeStep := riseStep,
                                   clockSpeed := current_value clk,
                                   riseTime := ucast (current_value rise)\<rparr>,
                               hasCustomConfig := True\<rparr>]\<rparr>
                else s1)"

text \<open>
  \<open>removeDeviceConfig\<close>: the entries after the first match move down by one; the slot
  at the old end keeps its content and falls out of \<open>deviceCount\<close>.
\<close>

function shift_down :: "DeviceConfig list \<Rightarrow> nat \<Rightarrow> nat \<Rightarrow> DeviceConfig list" where
  "shift_down ds j n =
     (if j + 1 < n then shift_down (ds[j := ds ! (j + 1)]) (j + 1) n else ds)"
  by pat_completeness auto
termination
  by (relation "measure (\<lambda>(ds, j, n). n - j)") auto

definition removeDeviceConfig :: "u8 \<Rightarrow> SelfAdjustingI2C \<Rightarrow> SelfAdjustingI2C" where
  "removeDeviceConfig a s =
     (case findDeviceConfig s a of
        None \<Rightarrow> s
      | Some i \<Rightarrow> s\<lparr>deviceConfigs := shift_down (deviceConfigs s) i (unat (deviceCount s)),
                     deviceCount := deviceCount s - 1\<rparr>)"

text \<open>
  \<open>scanBus\<close> probes the addresses 1 to 126; \<open>probe a\<close> is the status that
  \<open>Wire.endTransmission\<close> returns for address \<open>a\<close>. The result is the number of
  devices found and the state.
\<close>

fun scanBus_loop ::
  "(u8 \<Rightarrow> u8) \<Rightarrow> u8 list \<Rightarrow> u8 \<times> SelfAdjustingI2C \<Rightarrow> u8 \<times> SelfAdjustingI2C" where
  "scanBus_loop probe [] (devicesFound, s) = (devicesFound, s)"
| "scanBus_loop probe (a # rest) (devicesFound, s) =
     (if probe a = 0
      then scanBus_loop probe rest
             (devicesFound + 1,
              if findDeviceConfig s a = None then addDeviceConfig a s else s)
      else scanBus_loop probe rest (devicesFound, s))"

definition scanBus :: "(u8 \<Rightarrow> u8) \<Rightarrow> SelfAdjustingI2C \<Rightarrow> u8 \<times> SelfAdjustingI2C" where
  "scanBus probe s = scanBus_loop probe (map of_nat [1..<127]) (0, s)"

text \<open>
  \<open>testConfiguration\<close>: \<open>probe i\<close> is the status of the ping of the device in slot
  \<open>i\<close>. The loop stops at the first slot where \<open>testPassed\<close> is false.
\<close>

fun testConfiguration_loop ::
  "(nat \<Rightarrow> u8) \<Rightarrow> nat list \<Rightarrow> bool \<times> u8 \<times> SelfAdjustingI2C \<Rightarrow> bool \<times> u8 \<times> SelfAdjustingI2C" where
  "testConfiguration_loop probe [] st = st"
| "testConfiguration_loop probe (i # rest) (testPassed, testErrors, s) =
     (if testPassed
      then let result = probe i;
               (testPassed1, testErrors1, s1) =
                 (if result \<noteq> 0
                  then (if testErrors + 1 > 2 then False else testPassed, testErrors + 1, s)
                  else (testPassed, testErrors,
                        update_current_metrics
                          (\<lambda>m. m\<lparr>successfulTransactions := successfulTransactions m + 1\<rparr>) s));
               s2 = update_current_metrics
                      (\<lambda>m. m\<lparr>failedTransactions := failedTransactions m + ucast testErrors1\<rparr>) s1
           in testConfiguration_loop probe rest (testPassed1, testErrors1, s2)
      else (testPassed, testErrors, s))"

definition testConfiguration ::
  "u8 \<Rightarrow> u8 \<Rightarrow> (nat \<Rightarrow> u8) \<Rightarrow> u32 \<Rightarrow> SelfAdjustingI2C \<Rightarrow> bool \<times> SelfAdjustingI2C" where
  "testConfiguration clockStep riseStep probe now s =
     (if \<not> isStepValid clockStep \<or> \<not> isStepValid riseStep then (False, s)
      else let originalConfig = currentConfig s;
               s1 = applyConfiguration
                      (s\<lparr>currentConfig := (currentConfig s)
                           \<lparr>clockSpeedStep := clockStep, riseTimeStep := riseStep,
                            clockSpeed := calculateValueFromStep (clockSpeedRange s) clockStep,
                            riseTime := ucast (calculateValueFromStep (riseTimeRange s) riseStep),
                            metrics := zero_metrics\<lparr>lastUpdateTime := now\<rparr>\<rparr>\<rparr>);
               (testPassed0, testErrors, s2) =
                 testConfiguration_loop probe [0..<unat (deviceCount s1)] (True, 0, s1);
               testPassed = (if deviceCount s2 = 0 then True else testPassed0)
           in if \<not> testPassed
              then (testPassed, applyConfiguration (s2\<lparr>currentConfig := originalConfig\<rparr>))
              else (testPassed, s2))"

text \<open>
  \<open>scanAndOptimize\<close>: \<open>testProbe clockStep riseStep\<close> gives the ping results of the test
  of that pair of steps. The two nested loops run over all pairs, the clock step in the
  outer loop.
\<close>

fun scanAndOptimize_loop ::
  "(u8 \<Rightarrow> u8 \<Rightarrow> nat \<Rightarrow> u8) \<Rightarrow> u32 \<Rightarrow> (u8 \<times> u8) list
     \<Rightarrow> SelfAdjustingI2C \<times> I2CConfig \<times> real \<Rightarrow> (SelfAdjustingI2C \<times> I2CConfig \<times> real) option" where
  "scanAndOptimize_loop testProbe now [] st = Some st"
| "scanAndOptimize_loop testProbe now ((clockStep, riseStep) # rest)
       (s, bestOverallConfig, bestOverallScore) =
     (let (passed, s1) = testConfiguration clockStep riseStep (testProbe clockStep riseStep) now s
      in if passed
         then do {
           score \<leftarrow> calculatePerformanceScore s1 (metrics (currentConfig s1));
           if score > bestOverallScore
           then scanAndOptimize_loop testProbe now rest (s1, currentConfig s1, score)
           else scanAndOptimize_loop testProbe now rest (s1, bestOverallConfig, bestOverallScore)
         }
         else scanAndOptimize_loop testProbe now rest (s1, bestOverallConfig, bestOverallScore))"

definition step_pairs :: "(u8 \<times> u8) list" where
  "step_pairs = concat (map (\<lambda>c. map (\<lambda>r. (of_nat c, of_nat r)) [0..<20]) [0..<20])"

definition scanAndOptimize ::
  "(u8 \<Rightarrow> u8) \<Rightarrow> (u8 \<Rightarrow> u8 \<Rightarrow> nat \<Rightarrow> u8) \<Rightarrow> u32 \<Rightarrow> SelfAdjustingI2C \<Rightarrow> SelfAdjustingI2C option" where
  "scanAndOptimize scanProbe testProbe now s =
     (let (devicesFound, s1) = scanBus scanProbe s
      in if devicesFound = 0 then Some s1
         else do {
           (s2, bestOverallConfig, bestOverallScore) \<leftarrow>
             scanAndOptimize_loop testProbe now step_pairs (s1, currentConfig s1, 0);
           Some (saveCurrentAsBest (applyConfiguration (s2\<lparr>currentConfig := bestOverallConfig\<rparr>)))
         })"

text \<open>
  \<open>shiftPerformanceHistory\<close> is the only function that writes \<open>performanceHistory\<close> and
  advances \<open>historyIndex\<close>. No other function of the two source files calls it, so it is
  not part of any operation below.
\<close>

definition shiftPerformanceHistory :: "SelfAdjustingI2C \<Rightarrow> SelfAdjustingI2C" where
  "shiftPerformanceHistory s =
     (let s1 = (if unat (historyIndex s) \<ge> LEARNING_WINDOW_SIZE
                then s\<lparr>performanceHistory :=
                         map (\<lambda>i. performanceHistory s ! Suc i) [0..<LEARNING_WINDOW_SIZE - 1]
                         @ drop (LEARNING_WINDOW_SIZE - 1) (performanceHistory s),
                       historyIndex := of_nat (LEARNING_WINDOW_SIZE - 1)\<rparr>
                else s)
      in s1\<lparr>performanceHistory :=
              (performanceHistory s1)[unat (historyIndex s1) := metrics (currentConfig s1)],
            historyIndex := historyIndex s1 + 1\<rparr>)"

section \<open>The controller as a transition system\<close>

text \<open>
  One constructor for each public member function that can change the controller or the
  static ranges, with the readings of its environment as arguments. \<open>Unchanged\<close> stands
  for the public functions that leave both untouched: \<open>end\<close>, \<open>write\<close>, \<open>available\<close>,
  \<open>read\<close>, \<open>peek\<close>, \<open>flush\<close>, the getters, \<open>isInRecoveryMode\<close>, \<open>getLastErrorString\<close>,
  \<open>printDiagnostics\<close> and \<open>printDeviceConfigs\<close>.
\<close>

datatype operation =
  Begin u32
| RequestFrom u8 u8 u32 u32
| BeginTransmission u8
| EndTransmission u8 u32 u32
| EnableLearning bool
| EnableAdaptiveMode bool
| SetAdaptationRate u8
| ForceOptimization u32
| ResetToDefaults u32
| ResetLearning u32
| SetClockSpeed u32
| SetRiseTime u16
| ScanAndOptimize "u8 \<Rightarrow> u8" "u8 \<Rightarrow> u8 \<Rightarrow> nat \<Rightarrow> u8" u32
| SetDeviceSpecificConfig u8 u32 u16
| RemoveDeviceConfig u8
| EnableEmergencyRecovery bool
| SetCooldownPeriod u32
| TestConfiguration u8 u8 "nat \<Rightarrow> u8" u32
| ScanBus "u8 \<Rightarrow> u8"
| Unchanged

fun perform :: "operation \<Rightarrow> SelfAdjustingI2C \<Rightarrow> SelfAdjustingI2C option" where
  "perform (Begin now) s = Some (begin_I2C now s)"
| "perform (RequestFrom a result transactionTime now) s = requestFrom a result transactionTime now s"
| "perform (BeginTransmission a) s = Some (beginTransmission a s)"
| "perform (EndTransmission result transactionTime now) s = endTransmission result transactionTime now s"
| "perform (EnableLearning enable) s = Some (enableLearning enable s)"
| "perform (EnableAdaptiveMode enable) s = Some (enableAdaptiveMode enable s)"
| "perform (SetAdaptationRate rate) s = Some (setAdaptationRate rate s)"
| "perform (ForceOptimization now) s = forceOptimization now s"
| "perform (ResetToDefaults now) s = Some (resetToDefaults now s)"
| "perform (ResetLearning now) s = Some (resetLearning now s)"
| "perform (SetClockSpeed clockSpeedHz) s = Some (setClockSpeed clockSpeedHz s)"
| "perform (SetRiseTime riseTimeNs) s = Some (setRiseTime riseTimeNs s)"
| "perform (ScanAndOptimize scanProbe testProbe now) s = scanAndOptimize scanProbe testProbe now s"
| "perform (SetDeviceSpecificConfig a clockSpeedHz riseTimeNs) s =
     Some (setDeviceSpecificConfig a clockSpeedHz riseTimeNs s)"
| "perform (RemoveDeviceConfig a) s = Some (removeDeviceConfig a s)"
| "perform (EnableEmergencyRecovery enable) s = Some (enableEmergencyRecovery enable s)"
| "perform (SetCooldownPeriod milliseconds) s = Some (setCooldownPeriod milliseconds s)"
| "perform (TestConfiguration clockStep riseStep probe now) s =
     Some (snd (testConfiguration clockStep riseStep probe now s))"
| "perform (ScanBus probe) s = Some (snd (scanBus probe s))"
| "perform Unchanged s = Some s"

text \<open>The states in which a caller can find the controller.\<close>

inductive reachable :: "SelfAdjustingI2C \<Rightarrow> bool" where
  reachable_constructor: "reachable constructor"
| reachable_perform: "reachable s \<Longrightarrow> perform oper s = Some s' \<Longrightarrow> reachable s'"

section \<open>Auxiliary definitions for the properties\<close>

text \<open>
  A range has the definition of \<open>r\<close> when it agrees with \<open>r\<close> on the three fields that
  the conversions read. The current and the optimal step do not matter.
\<close>

definition same_range_definition :: "DynamicRange \<Rightarrow> DynamicRange \<Rightarrow> bool" where
  "same_range_definition r rng \<longleftrightarrow>
     min_value rng = min_value r \<and> max_value rng = max_value r \<and> step_size rng = step_size r"

text \<open>The value of every step, and the step that the value is converted back to.\<close>

definition step_table :: "DynamicRange \<Rightarrow> (u32 \<times> u8) list" where
  "step_table r = map (\<lambda>n. let v = calculateValueFromStep r (of_nat n)
                              in (v, calculateStepFromValue r v)) [0..<20]"

definition table_ok :: "(u32 \<times> u8) list \<Rightarrow> bool" where
  "table_ok t \<longleftrightarrow> sorted (map fst t) \<and>
     list_all (\<lambda>n. n \<le> unat (snd (t ! n)) + 1 \<and> unat (snd (t ! n)) \<le> n + 1) [0..<20]"

text \<open>The decision that a call within the cooldown period returns.\<close>

definition cooldown_decision :: AIDecision where
  "cooldown_decision =
     \<lparr>clockSpeedDelta = 0, riseTimeDelta = 0, confidence = 0, shouldAdjust = False,
      reason = ''Cooldown period active''\<rparr>"

text \<open>
  A state with 25 successful transactions and no failed one in the current metrics and
  two errors among the last ten error records: the first and the second rule both apply.
\<close>

definition high_error_state :: SelfAdjustingI2C where
  "high_error_state =
     constructor
       \<lparr>currentConfig := (currentConfig constructor)
          \<lparr>metrics := zero_metrics\<lparr>successfulTransactions := 25, totalTransactionTime := 12500,
                                     averageTransactionTime := 500\<rparr>\<rparr>,
        errorHistory := [1, 1, 0, 0, 0, 0, 0, 0, 0, 0],
        errorHistoryIndex := 2\<rparr>"

text \<open>
  A state with fresh current metrics and a best configuration that has 25 successful
  transactions on record: the third rule applies.
\<close>

definition restore_state :: SelfAdjustingI2C where
  "restore_state =
     constructor
       \<lparr>bestConfig := (bestConfig constructor)
          \<lparr>clockSpeedStep := 2, clockSpeed := 435526,
           metrics := zero_metrics\<lparr>successfulTransactions := 25, totalTransactionTime := 12500,
                                     averageTransactionTime := 500\<rparr>\<rparr>\<rparr>"

text \<open>
  \<open>kept s s'\<close>: the history and the two recovery switches are in \<open>s'\<close> as they are in
  \<open>s\<close>. \<open>no_history s\<close>: nothing has been recorded in the history.
\<close>

definition kept :: "SelfAdjustingI2C \<Rightarrow> SelfAdjustingI2C \<Rightarrow> bool" where
  "kept s s' \<longleftrightarrow> historyIndex s' = historyIndex s \<and> performanceHistory s' = performanceHistory s
     \<and> emergencyRecovery s' = emergencyRecovery s \<and> adaptiveMode s' = adaptiveMode s"

definition no_history :: "SelfAdjustingI2C \<Rightarrow> bool" where
  "no_history s \<longleftrightarrow> historyIndex s = 0
     \<and> performanceHistory s = replicate LEARNING_WINDOW_SIZE zero_metrics"

text \<open>A transaction that fails: no byte received, or a non-zero status.\<close>

fun failed_transaction :: "operation \<Rightarrow> bool" where
  "failed_transaction (RequestFrom a result transactionTime now) = (result = 0)"
| "failed_transaction (EndTransmission result transactionTime now) = (result \<noteq> 0)"
| "failed_transaction _ = False"

text \<open>
  The state after one \<open>endTransmission\<close> on a fresh controller that returned status 2
  after 150 microseconds, at time 1000.
\<close>

definition after_failure :: SelfAdjustingI2C where
  "after_failure =
     handleError ERROR_NACK_ADDRESS 1000
       ((updatePerformanceMetrics_counters False 150 0 1000 constructor)\<lparr>performanceScore := 0\<rparr>)"

text \<open>A state at the error threshold with emergency recovery switched off.\<close>

definition breach_state :: SelfAdjustingI2C where
  "breach_state = constructor\<lparr>consecutiveErrors := 3, emergencyRecovery := False\<rparr>"

text \<open>
  Two metrics snapshots: 25 successful transactions of 1000 microseconds each, as a
  best configuration has them on record, and the same after 5 failed transactions. And
  the fresh controller with given current metrics.
  \<open>specified_score\<close> is the score as the specification words it, computed from the
  fields of its argument, with the stability score as a parameter.
\<close>

definition with_current_metrics :: "I2CPerformanceMetrics \<Rightarrow> SelfAdjustingI2C" where
  "with_current_metrics m = constructor\<lparr>currentConfig := (currentConfig constructor)\<lparr>metrics := m\<rparr>\<rparr>"

definition metrics_clean :: I2CPerformanceMetrics where
  "metrics_clean = zero_metrics\<lparr>successfulTransactions := 25, failedTransactions := 0,
      totalTransactionTime := 25000, averageTransactionTime := 1000, errorRate := 0\<rparr>"

definition metrics_degraded :: I2CPerformanceMetrics where
  "metrics_degraded = zero_metrics\<lparr>successfulTransactions := 25, failedTransactions := 5,
      totalTransactionTime := 25000, averageTransactionTime := 1000, errorRate := 16\<rparr>"

definition specified_score :: "real \<Rightarrow> I2CPerformanceMetrics \<Rightarrow> real" where
  "specified_score stability m =
     (if successfulTransactions m = 0 then 0
      else let reliability = 100 * real (unat (successfulTransactions m))
                             / (real (unat (successfulTransactions m)) + real (unat (failedTransactions m)));
               efficiency = 100 / (1 + real (unat (averageTransactionTime m)) / 1000)
           in 0.60 * reliability + 0.25 * efficiency + 0.15 * stability)"

text \<open>A fresh controller in which the addresses 16 and 32 have been registered.\<close>

definition registered_state :: SelfAdjustingI2C where
  "registered_state = addDeviceConfig 32 (addDeviceConfig 16 constructor)"

section \<open>Properties of the dynamic range model\<close>

text \<open>
  The rounding on known values: 0.1 has the binary32 significand 13421773, an integer
  below \<open>2 ^ 24\<close> is exact, and the tie 16777217 goes to the even significand.
\<close>

lemma f32_examples:
  "f32 (1 / 10) = 13421773 / 134217728" "f32 3425000 = 3425000" "f32 16777217 = 16777216"
  "f32 16777219 = 16777220"
  by code_simp+

text \<open>The two ranges after \<open>initializeDynamicRanges\<close>.\<close>

lemma initialised_ranges:
  "clockSpeedRange_init =
     \<lparr>min_value = 75000, max_value = 3500000, current_value = 100000,
      default_value = 100000, current_step = 0, optimal_step = 0,
      step_size = 5768421 / 32\<rparr>"
  "riseTimeRange_init =
     \<lparr>min_value = 40, max_value = 250, current_value = 125,
      default_value = 125, current_step = 7, optimal_step = 7,
      step_size = 2897381 / 262144\<rparr>"
  by code_simp+

lemma calculateValueFromStep_cong:
  "same_range_definition r rng \<Longrightarrow> calculateValueFromStep rng s = calculateValueFromStep r s"
  by (simp add: same_range_definition_def calculateValueFromStep_def)

lemma calculateStepFromValue_cong:
  "same_range_definition r rng \<Longrightarrow> calculateStepFromValue rng v = calculateStepFromValue r v"
  by (simp add: same_range_definition_def calculateStepFromValue_def)

lemma clock_step_table:
  "step_table clockSpeedRange_init =
     [(75000, 0), (255263, 0), (435526, 1), (615789, 2), (796052, 3), (976315, 4),
      (1156579, 6), (1336842, 6), (1517105, 7), (1697368, 8), (1877631, 9), (2057894, 10),
      (2238158, 12), (2418421, 13), (2598684, 13), (2778947, 14), (2959210, 15),
      (3139473, 16), (3319736, 17), (3500000, 19)]"
  by code_simp

lemma rise_step_table:
  "step_table riseTimeRange_init =
     [(40, 0), (51, 0), (62, 1), (73, 2), (84, 3), (95, 4), (106, 5), (117, 6), (128, 7),
      (139, 8), (150, 9), (161, 10), (172, 11), (183, 12), (194, 13), (205, 14), (216, 15),
      (227, 16), (238, 17), (250, 19)]"
  by code_simp

lemma tables_ok:
  "table_ok (step_table clockSpeedRange_init)" "table_ok (step_table riseTimeRange_init)"
  unfolding clock_step_table rise_step_table table_ok_def by code_simp+

lemma step_table_nth:
  "n < 20 \<Longrightarrow> step_table r ! n =
     (calculateValueFromStep r (of_nat n),
      calculateStepFromValue r (calculateValueFromStep r (of_nat n)))"
  by (simp add: step_table_def Let_def)

lemma table_ok_range:
  assumes ok: "table_ok (step_table r)" and le: "s \<le> s'" and lt: "s' < DYNAMIC_RANGE_STEPS"
  shows "calculateValueFromStep r s \<le> calculateValueFromStep r s' \<and>
         unat s \<le> unat (calculateStepFromValue r (calculateValueFromStep r s)) + 1 \<and>
         unat (calculateStepFromValue r (calculateValueFromStep r s)) \<le> unat s + 1"
proof -
  have n': "unat s' < 20" using lt by (simp add: word_less_nat_alt)
  have nn: "unat s \<le> unat s'" using le by (simp add: word_le_nat_alt)
  then have n: "unat s < 20" using n' by simp
  have len: "length (map fst (step_table r)) = 20" by (simp add: step_table_def)
  from ok have srt: "sorted (map fst (step_table r))" by (simp add: table_ok_def)
  have "map fst (step_table r) ! unat s \<le> map fst (step_table r) ! unat s'"
    using sorted_nth_mono [OF srt nn] n' len by simp
  then have mono: "calculateValueFromStep r s \<le> calculateValueFromStep r s'"
    using n n' by (simp add: step_table_def Let_def)
  from ok have "\<forall>k\<in>set [0..<20]. k \<le> unat (snd (step_table r ! k)) + 1 \<and>
                    unat (snd (step_table r ! k)) \<le> k + 1"
    by (simp add: table_ok_def list_all_iff)
  then have "unat s \<le> unat (snd (step_table r ! unat s)) + 1 \<and>
             unat (snd (step_table r ! unat s)) \<le> unat s + 1"
    using n by simp
  then show ?thesis using mono n by (simp add: step_table_nth)
qed

text \<open>
  Claim C7. For the clock-speed range and for the rise-time range, as
  \<open>initializeDynamicRanges\<close> sets them up: the value of a step does not decrease when the
  step grows within 0..19, and converting the value of a step \<open>s\<close> back gives a step
  between \<open>s - 1\<close> and \<open>s + 1\<close>.
\<close>

theorem range_steps_monotone_and_adjacent:
  assumes "same_range_definition clockSpeedRange_init rng \<or>
           same_range_definition riseTimeRange_init rng"
    and "s \<le> s'" and "s' < DYNAMIC_RANGE_STEPS"
  shows "calculateValueFromStep rng s \<le> calculateValueFromStep rng s' \<and>
         unat s \<le> unat (calculateStepFromValue rng (calculateValueFromStep rng s)) + 1 \<and>
         unat (calculateStepFromValue rng (calculateValueFromStep rng s)) \<le> unat s + 1"
  using assms(1)
proof
  assume d: "same_range_definition clockSpeedRange_init rng"
  show ?thesis
    using table_ok_range [OF tables_ok(1) assms(2,3)]
    by (simp add: calculateValueFromStep_cong [OF d] calculateStepFromValue_cong [OF d])
next
  assume d: "same_range_definition riseTimeRange_init rng"
  show ?thesis
    using table_ok_range [OF tables_ok(2) assms(2,3)]
    by (simp add: calculateValueFromStep_cong [OF d] calculateStepFromValue_cong [OF d])
qed

theorem range_steps_monotone_and_adjacent_witness:
  "(same_range_definition clockSpeedRange_init clockSpeedRange_init \<or>
    same_range_definition riseTimeRange_init clockSpeedRange_init) \<and>
   (6::u8) \<le> 13 \<and> (13::u8) < DYNAMIC_RANGE_STEPS \<and>
   calculateValueFromStep clockSpeedRange_init 6 \<le> calculateValueFromStep clockSpeedRange_init 13 \<and>
   unat (6::u8) \<le> unat (calculateStepFromValue clockSpeedRange_init
                          (calculateValueFromStep clockSpeedRange_init 6)) + 1 \<and>
   unat (calculateStepFromValue clockSpeedRange_init
           (calculateValueFromStep clockSpeedRange_init 6)) \<le> unat (6::u8) + 1"
proof -
  have d: "same_range_definition clockSpeedRange_init clockSpeedRange_init \<or>
           same_range_definition riseTimeRange_init clockSpeedRange_init"
    by (simp add: same_range_definition_def)
  have le: "(6::u8) \<le> 13" and lt: "(13::u8) < DYNAMIC_RANGE_STEPS" by simp_all
  show ?thesis
    using d le lt range_steps_monotone_and_adjacent [OF d le lt] by simp
qed

section \<open>Properties of the scores\<close>

lemma calculatePerformanceScore_unfold:
  "calculatePerformanceScore s m =
     (if successfulTransactions m = 0 then Some 0
      else do {
        stabilityScore \<leftarrow> calculateStabilityScore s;
        Some (calculateReliabilityScore s * 0.6 + calculateEfficiencyScore s * 0.25
              + stabilityScore * 0.15)
      })"
  unfolding calculatePerformanceScore_def calculateStabilityScore_def
  by (subst score_eval.simps) (simp add: Let_def)

text \<open>With fewer than three history entries no score recurses, and every score returns.\<close>

lemma calculateStabilityScore_few: "historyIndex s < 3 \<Longrightarrow> calculateStabilityScore s = Some 50"
  unfolding calculateStabilityScore_def by (subst score_eval.simps) simp

lemma calculatePerformanceScore_few:
  "historyIndex s < 3 \<Longrightarrow>
   calculatePerformanceScore s m =
     Some (if successfulTransactions m = 0 then 0
           else calculateReliabilityScore s * 0.6 + calculateEfficiencyScore s * 0.25 + 7.5)"
  by (simp add: calculatePerformanceScore_unfold calculateStabilityScore_few)

lemma analyzeTrend_few: "historyIndex s < 3 \<Longrightarrow> analyzeTrend s = Some 0"
  by (simp add: analyzeTrend_def)

text \<open>
  Claim C1. The score is not a function of its argument alone: of the argument only
  \<open>successfulTransactions\<close> is read, for the test against 0; reliability and efficiency
  come from the metrics of \<open>currentConfig\<close>. For the snapshot \<open>metrics_clean\<close> (25
  successes, no failure, average time 1000) the code returns 70 when the current metrics
  are \<open>metrics_degraded\<close> (25 successes, 5 failures), and 80, the value of the specified
  formula, only when the current metrics are the argument itself.
\<close>

theorem score_reads_current_metrics:
  "calculatePerformanceScore (with_current_metrics metrics_degraded) metrics_clean = Some 70 \<and>
   calculatePerformanceScore (with_current_metrics metrics_clean) metrics_clean = Some 80 \<and>
   specified_score 50 metrics_clean = 80"
  by (simp add: calculatePerformanceScore_few with_current_metrics_def constructor_def
      metrics_clean_def metrics_degraded_def zero_metrics_def specified_score_def
      calculateReliabilityScore_def calculateEfficiencyScore_def Let_def)

section \<open>Properties of the decision engine\<close>

text \<open>
  Claim C8. Two calls of the decision engine that both fall into the cooldown period,
  \<open>now - lastAdjustmentTime < adjustmentCooldown\<close>, return the same decision whatever
  the two states are: deltas 0, confidence 0, no adjustment, reason "Cooldown period
  active". Neither call changes the state.
\<close>

theorem cooldown_decisions_identical:
  assumes "now1 - lastAdjustmentTime s1 < adjustmentCooldown s1"
    and "now2 - lastAdjustmentTime s2 < adjustmentCooldown s2"
  shows "analyzePerformanceAndDecide now1 s1 = Some (cooldown_decision, s1) \<and>
         analyzePerformanceAndDecide now2 s2 = Some (cooldown_decision, s2) \<and>
         map_option fst (analyzePerformanceAndDecide now1 s1)
           = map_option fst (analyzePerformanceAndDecide now2 s2)"
  using assms
  by (simp add: analyzePerformanceAndDecide_def no_adjustment_def cooldown_decision_def)

lemma high_error_state_facts:
  "historyIndex high_error_state < 3"
  "getRecentErrorRate high_error_state = 20"
  "errorRate (metrics (currentConfig high_error_state)) = 0"
  "successfulTransactions (metrics (currentConfig high_error_state)) = 25"
  "lastAdjustmentTime high_error_state = 0"
  "adjustmentCooldown high_error_state = 5000"
  by (simp_all add: high_error_state_def constructor_def getRecentErrorRate_def zero_metrics_def
      Let_def)

theorem cooldown_decisions_identical_witness:
  "(1000::u32) - lastAdjustmentTime constructor < adjustmentCooldown constructor \<and>
   (4000::u32) - lastAdjustmentTime high_error_state < adjustmentCooldown high_error_state \<and>
   analyzePerformanceAndDecide 1000 constructor = Some (cooldown_decision, constructor) \<and>
   analyzePerformanceAndDecide 4000 high_error_state = Some (cooldown_decision, high_error_state) \<and>
   map_option fst (analyzePerformanceAndDecide 1000 constructor)
     = map_option fst (analyzePerformanceAndDecide 4000 high_error_state)"
proof -
  have c1: "(1000::u32) - lastAdjustmentTime constructor < adjustmentCooldown constructor"
    by (simp add: constructor_def Let_def)
  have c2: "(4000::u32) - lastAdjustmentTime high_error_state < adjustmentCooldown high_error_state"
    by (simp add: high_error_state_facts)
  show ?thesis
    using c1 c2 cooldown_decisions_identical [OF c1 c2] by simp
qed

text \<open>
  Claim C5. Outside the cooldown period, a recent error rate above 10 percent gives the
  decision of the first rule (clock one step down, rise time one step up, confidence
  85, to be applied) and leaves the state as it is, whatever the other rules would say.
  The scores are computed before the rules are evaluated; with fewer than three history
  entries, as in every reachable state, they return. In the example state the second
  rule's condition (error rate 0, more than 20 successes) holds as well. The recent
  error rate is a multiple of 10; in the example it is 20 percent.
\<close>

theorem high_error_rate_wins:
  assumes "\<not> now - lastAdjustmentTime s < adjustmentCooldown s"
    and "historyIndex s < 3"
    and "getRecentErrorRate s > 10"
  shows "analyzePerformanceAndDecide now s =
           Some (\<lparr>clockSpeedDelta = - 1, riseTimeDelta = 1, confidence = 85,
                   shouldAdjust = True, reason = ''High error rate detected''\<rparr>, s)"
  using assms
  by (simp add: analyzePerformanceAndDecide_def calculatePerformanceScore_few analyzeTrend_few)

theorem high_error_rate_wins_witness:
  "\<not> 6000 - lastAdjustmentTime high_error_state < adjustmentCooldown high_error_state \<and>
   historyIndex high_error_state < 3 \<and>
   getRecentErrorRate high_error_state > 10 \<and>
   errorRate (metrics (currentConfig high_error_state)) = 0 \<and>
   successfulTransactions (metrics (currentConfig high_error_state)) > 20 \<and>
   analyzePerformanceAndDecide 6000 high_error_state =
     Some (\<lparr>clockSpeedDelta = - 1, riseTimeDelta = 1, confidence = 85,
             shouldAdjust = True, reason = ''High error rate detected''\<rparr>, high_error_state)"
proof -
  have c: "\<not> 6000 - lastAdjustmentTime high_error_state < adjustmentCooldown high_error_state"
    by (simp add: high_error_state_facts)
  have h: "historyIndex high_error_state < 3" by (simp add: high_error_state_facts)
  have r: "getRecentErrorRate high_error_state > 10" by (simp add: high_error_state_facts)
  show ?thesis
    using c h r high_error_rate_wins [OF c h r] by (simp add: high_error_state_facts)
qed

text \<open>
  Claim C4. When the engine is outside the cooldown period, the first two rules do not
  apply and the score of the current metrics is below 0.7 times the score of the best
  metrics, the decision has both deltas 0, confidence 95, \<open>shouldAdjust\<close> false and the
  reason "Restoring best configuration", and the same call has made the best
  configuration the current one and then pushed its clock speed and rise time to the
  hardware. Nothing else changes.
\<close>

theorem restore_best_decision:
  assumes "\<not> now - lastAdjustmentTime s < adjustmentCooldown s"
    and "historyIndex s < 3"
    and "\<not> getRecentErrorRate s > 10"
    and "\<not> (errorRate (metrics (currentConfig s)) = 0
             \<and> successfulTransactions (metrics (currentConfig s)) > 20)"
    and "calculatePerformanceScore s (metrics (currentConfig s)) = Some currentScore"
    and "calculatePerformanceScore s (metrics (bestConfig s)) = Some bestScore"
    and "currentScore < bestScore * 0.7"
  shows "analyzePerformanceAndDecide now s =
           Some (\<lparr>clockSpeedDelta = 0, riseTimeDelta = 0, confidence = 95,
                   shouldAdjust = False, reason = ''Restoring best configuration''\<rparr>,
                 s\<lparr>currentConfig := bestConfig s,
                   hardwareLog := hardwareLog s
                     @ [(clockSpeed (bestConfig s), riseTime (bestConfig s))]\<rparr>)"
proof -
  have rule2: "(errorRate (metrics (currentConfig s)) = 0
                \<and> successfulTransactions (metrics (currentConfig s)) > 20) = False"
    using assms(4) by simp
  show ?thesis
    using assms(1,2,3,5,6,7)
    by (simp add: analyzePerformanceAndDecide_def analyzeTrend_few restoreBestConfiguration_def
        applyConfiguration_def rule2)
qed

lemma restore_state_facts:
  "historyIndex restore_state < 3"
  "getRecentErrorRate restore_state = 0"
  "successfulTransactions (metrics (currentConfig restore_state)) = 0"
  "lastAdjustmentTime restore_state = 0"
  "adjustmentCooldown restore_state = 5000"
  "calculatePerformanceScore restore_state (metrics (currentConfig restore_state)) = Some 0"
  "calculatePerformanceScore restore_state (metrics (bestConfig restore_state)) = Some (15 / 2)"
  by (simp_all add: restore_state_def constructor_def getRecentErrorRate_def zero_metrics_def
      Let_def calculatePerformanceScore_few calculateReliabilityScore_def
      calculateEfficiencyScore_def)

theorem restore_best_decision_witness:
  "\<not> 6000 - lastAdjustmentTime restore_state < adjustmentCooldown restore_state \<and>
   historyIndex restore_state < 3 \<and>
   \<not> getRecentErrorRate restore_state > 10 \<and>
   \<not> (errorRate (metrics (currentConfig restore_state)) = 0
       \<and> successfulTransactions (metrics (currentConfig restore_state)) > 20) \<and>
   calculatePerformanceScore restore_state (metrics (currentConfig restore_state)) = Some 0 \<and>
   calculatePerformanceScore restore_state (metrics (bestConfig restore_state)) = Some (15 / 2) \<and>
   (0::real) < 15 / 2 * 0.7 \<and>
   analyzePerformanceAndDecide 6000 restore_state =
     Some (\<lparr>clockSpeedDelta = 0, riseTimeDelta = 0, confidence = 95,
             shouldAdjust = False, reason = ''Restoring best configuration''\<rparr>,
           restore_state\<lparr>currentConfig := bestConfig restore_state,
             hardwareLog := hardwareLog restore_state
               @ [(clockSpeed (bestConfig restore_state), riseTime (bestConfig restore_state))]\<rparr>)"
proof -
  have c: "\<not> 6000 - lastAdjustmentTime restore_state < adjustmentCooldown restore_state"
    by (simp add: restore_state_facts)
  have h: "historyIndex restore_state < 3" by (simp add: restore_state_facts)
  have r: "\<not> getRecentErrorRate restore_state > 10" by (simp add: restore_state_facts)
  have e: "\<not> (errorRate (metrics (currentConfig restore_state)) = 0
              \<and> successfulTransactions (metrics (currentConfig restore_state)) > 20)"
    by (simp add: restore_state_facts)
  have lt: "(0::real) < 15 / 2 * 0.7" by simp
  show ?thesis
    using c h r e lt restore_best_decision [OF c h r e restore_state_facts(6,7) lt]
    by (simp add: restore_state_facts)
qed

section \<open>Frame properties of the internal functions\<close>

text \<open>
  What each function leaves as it is: the history and the recovery switches (\<open>kept\<close>),
  and what it does to \<open>consecutiveErrors\<close>.
\<close>

lemma kept_refl [simp]: "kept s s" by (simp add: kept_def)

lemma kept_trans: "kept s s' \<Longrightarrow> kept s' s'' \<Longrightarrow> kept s s''" by (simp add: kept_def)

lemma applyConfiguration_kept [simp]: "kept s (applyConfiguration s)"
  by (simp add: kept_def applyConfiguration_def)

lemma applyConfiguration_errors [simp]:
  "consecutiveErrors (applyConfiguration s) = consecutiveErrors s"
  by (simp add: applyConfiguration_def)

lemma update_current_metrics_kept [simp]: "kept s (update_current_metrics f s)"
  by (simp add: kept_def update_current_metrics_def)

lemma update_current_metrics_errors [simp]:
  "consecutiveErrors (update_current_metrics f s) = consecutiveErrors s"
  by (simp add: update_current_metrics_def)

lemma addDeviceConfig_kept [simp]: "kept s (addDeviceConfig a s)"
  by (simp add: kept_def addDeviceConfig_def)

lemma addDeviceConfig_errors [simp]:
  "consecutiveErrors (addDeviceConfig a s) = consecutiveErrors s"
  by (simp add: addDeviceConfig_def)

lemma applyDeviceConfiguration_kept [simp]: "kept s (applyDeviceConfiguration a s)"
  by (simp add: kept_def applyDeviceConfiguration_def applyConfiguration_def Let_def split: option.splits)

lemma applyDeviceConfiguration_errors [simp]:
  "consecutiveErrors (applyDeviceConfiguration a s) = consecutiveErrors s"
  by (simp add: applyDeviceConfiguration_def applyConfiguration_def Let_def split: option.splits)

lemma updatePerformanceMetrics_counters_kept [simp]:
  "kept s (updatePerformanceMetrics_counters ok t a now s)"
  by (simp add: kept_def updatePerformanceMetrics_counters_def update_current_metrics_def
      addDeviceConfig_def Let_def split: option.splits prod.splits)

lemma updatePerformanceMetrics_counters_errors [simp]:
  "consecutiveErrors (updatePerformanceMetrics_counters ok t a now s)
     = (if ok then 0 else consecutiveErrors s + 1)"
  by (simp add: updatePerformanceMetrics_counters_def update_current_metrics_def
      addDeviceConfig_def Let_def split: option.splits prod.splits)

lemma updateErrorHistory_kept [simp]: "kept s (updateErrorHistory e s)"
  by (simp add: kept_def updateErrorHistory_def)

lemma updateErrorHistory_errors [simp]:
  "consecutiveErrors (updateErrorHistory e s) = consecutiveErrors s"
  by (simp add: updateErrorHistory_def)

lemma emergencyRecoveryProcedure_kept [simp]: "kept s (emergencyRecoveryProcedure now s)"
  by (simp add: kept_def emergencyRecoveryProcedure_def applyConfiguration_def Let_def)

lemma emergencyRecoveryProcedure_result:
  "consecutiveErrors (emergencyRecoveryProcedure now s) = 0"
  "clockSpeedStep (currentConfig (emergencyRecoveryProcedure now s)) = 0"
  "riseTimeStep (currentConfig (emergencyRecoveryProcedure now s)) = 19"
  "\<not> learningMode (emergencyRecoveryProcedure now s)"
  "adjustmentCooldown (emergencyRecoveryProcedure now s) = 15000"
  "lastAdjustmentTime (emergencyRecoveryProcedure now s) = now"
  "hardwareLog (emergencyRecoveryProcedure now s)
     = hardwareLog s @ [(clockSpeed (currentConfig (emergencyRecoveryProcedure now s)),
                         riseTime (currentConfig (emergencyRecoveryProcedure now s)))]"
  by (simp_all add: emergencyRecoveryProcedure_def applyConfiguration_def Let_def)

lemma incrementalRecovery_kept [simp]: "kept s (incrementalRecovery s)"
  by (simp add: kept_def incrementalRecovery_def applyConfiguration_def Let_def)

lemma incrementalRecovery_errors [simp]: "consecutiveErrors (incrementalRecovery s) = 0"
  by (simp add: incrementalRecovery_def Let_def)

lemma incrementalRecovery_log:
  "length (hardwareLog (incrementalRecovery s))
     = (if clockSpeedStep (currentConfig s) > 0 then Suc (length (hardwareLog s))
        else length (hardwareLog s))"
  by (simp add: incrementalRecovery_def applyConfiguration_def Let_def)

lemma adaptiveRecovery_kept [simp]: "kept s (adaptiveRecovery now s)"
  by (simp add: kept_def adaptiveRecovery_def emergencyRecoveryProcedure_def
      applyConfiguration_def Let_def)

lemma adaptiveRecovery_errors [simp]: "consecutiveErrors (adaptiveRecovery now s) = 0"
  by (simp add: adaptiveRecovery_def emergencyRecoveryProcedure_result Let_def)

lemma adaptiveRecovery_log:
  "length (hardwareLog (adaptiveRecovery now s)) = Suc (length (hardwareLog s))"
  by (simp add: adaptiveRecovery_def emergencyRecoveryProcedure_def applyConfiguration_def Let_def)

text \<open>The adaptive recovery hands over to the emergency procedure above 20 percent.\<close>

lemma adaptiveRecovery_escalates:
  "getRecentErrorRate s > 20 \<Longrightarrow> adaptiveRecovery now s = emergencyRecoveryProcedure now s"
  by (simp add: adaptiveRecovery_def Let_def)

lemma handleError_kept [simp]: "kept s (handleError e now s)"
proof -
  have "kept s (updateErrorHistory e (s\<lparr>lastError := e, lastErrorTime := now\<rparr>))"
    by (simp add: kept_def updateErrorHistory_def)
  then show ?thesis
    unfolding handleError_def Let_def
    by (auto intro: kept_trans emergencyRecoveryProcedure_kept adaptiveRecovery_kept
        incrementalRecovery_kept)
qed

lemma handleError_errors:
  "consecutiveErrors (handleError e now s)
     = (if consecutiveErrors s \<ge> 3 then 0 else consecutiveErrors s)"
  by (simp add: handleError_def Let_def emergencyRecoveryProcedure_result)

lemma applyAIDecision_kept [simp]: "kept s (applyAIDecision now d s)"
  by (simp add: kept_def applyAIDecision_def applyConfiguration_def update_current_metrics_def Let_def)

lemma applyAIDecision_errors [simp]:
  "consecutiveErrors (applyAIDecision now d s) = consecutiveErrors s"
  by (simp add: applyAIDecision_def applyConfiguration_def update_current_metrics_def Let_def)

lemma saveCurrentAsBest_kept [simp]: "kept s (saveCurrentAsBest s)"
  by (simp add: kept_def saveCurrentAsBest_def)

lemma restoreBestConfiguration_kept [simp]: "kept s (restoreBestConfiguration s)"
  by (simp add: kept_def restoreBestConfiguration_def applyConfiguration_def)

lemma analyzePerformanceAndDecide_Some:
  assumes "analyzePerformanceAndDecide now s = Some (d, s')"
  shows "kept s s' \<and> consecutiveErrors s' = consecutiveErrors s"
  using assms
  by (auto simp add: analyzePerformanceAndDecide_def Let_def saveCurrentAsBest_def
      restoreBestConfiguration_def applyConfiguration_def kept_def
      split: if_splits Option.bind_splits)

lemma analyzePerformanceAndDecide_returns:
  assumes "historyIndex s < 3"
  shows "\<exists>d s'. analyzePerformanceAndDecide now s = Some (d, s')"
  using assms
  by (simp add: analyzePerformanceAndDecide_def calculatePerformanceScore_few analyzeTrend_few
      Let_def split: prod.splits)


section \<open>The transaction functions\<close>

text \<open>
  With fewer than three history entries the metrics update, the decision engine and so
  the transaction functions return (the \<open>_returns\<close> lemmas); the \<open>_Some\<close> lemmas say
  what a returned state keeps.
\<close>

lemma kept_historyIndex: "kept s s' \<Longrightarrow> historyIndex s' = historyIndex s"
  by (simp add: kept_def)

lemma updatePerformanceMetrics_few:
  assumes "historyIndex s < 3"
  shows "\<exists>x. updatePerformanceMetrics ok t a now s
               = Some ((updatePerformanceMetrics_counters ok t a now s)\<lparr>performanceScore := x\<rparr>)"
proof -
  have "historyIndex (updatePerformanceMetrics_counters ok t a now s) < 3"
    using assms kept_historyIndex [OF updatePerformanceMetrics_counters_kept] by simp
  then obtain x where
    "calculatePerformanceScore (updatePerformanceMetrics_counters ok t a now s)
       (metrics (currentConfig (updatePerformanceMetrics_counters ok t a now s))) = Some x"
    by (simp add: calculatePerformanceScore_few)
  then have "updatePerformanceMetrics ok t a now s
               = Some ((updatePerformanceMetrics_counters ok t a now s)\<lparr>performanceScore := x\<rparr>)"
    by (simp add: updatePerformanceMetrics_def Let_def)
  then show ?thesis by blast
qed

lemma updatePerformanceMetrics_Some:
  assumes "updatePerformanceMetrics ok t a now s = Some s2"
  shows "kept s s2 \<and> consecutiveErrors s2 = (if ok then 0 else consecutiveErrors s + 1)"
proof -
  from assms obtain x where
    "s2 = (updatePerformanceMetrics_counters ok t a now s)\<lparr>performanceScore := x\<rparr>"
    by (auto simp add: updatePerformanceMetrics_def Let_def split: Option.bind_splits)
  moreover have "kept s (updatePerformanceMetrics_counters ok t a now s)" by simp
  ultimately show ?thesis by (simp add: kept_def)
qed

lemma decide_and_apply_Some:
  assumes "(do { (decision, s3) \<leftarrow> analyzePerformanceAndDecide now s2;
                 if shouldAdjust decision then Some (applyAIDecision now decision s3) else Some s3 })
           = Some s'"
  shows "kept s2 s' \<and> consecutiveErrors s' = consecutiveErrors s2"
proof -
  from assms obtain d s3 where a: "analyzePerformanceAndDecide now s2 = Some (d, s3)"
    and r: "s' = (if shouldAdjust d then applyAIDecision now d s3 else s3)"
    by (auto split: Option.bind_splits if_splits)
  from analyzePerformanceAndDecide_Some [OF a]
  have k: "kept s2 s3" and e: "consecutiveErrors s3 = consecutiveErrors s2" by simp_all
  show ?thesis
    using k e r kept_trans [OF k applyAIDecision_kept] by auto
qed

lemma decide_and_apply_returns:
  assumes "historyIndex s2 < 3"
  shows "\<exists>s'. (do { (decision, s3) \<leftarrow> analyzePerformanceAndDecide now s2;
                 if shouldAdjust decision then Some (applyAIDecision now decision s3) else Some s3 })
           = Some s'"
proof -
  from analyzePerformanceAndDecide_returns [OF assms]
  obtain d s3 where "analyzePerformanceAndDecide now s2 = Some (d, s3)" by blast
  then show ?thesis by simp
qed

lemma requestFrom_Some:
  assumes "requestFrom a r t now s = Some s'"
  shows "kept s s' \<and>
         consecutiveErrors s' =
           (if r = 0 then (if consecutiveErrors s + 1 \<ge> 3 then 0 else consecutiveErrors s + 1)
            else 0)"
proof -
  define s1 where "s1 = (if adaptiveMode s then applyDeviceConfiguration a (s\<lparr>currentDeviceAddress := a\<rparr>)
                         else s\<lparr>currentDeviceAddress := a\<rparr>)"
  have k01: "kept s s1"
  proof -
    have "kept s (s\<lparr>currentDeviceAddress := a\<rparr>)" by (simp add: kept_def)
    then show ?thesis unfolding s1_def
      by (auto intro: kept_trans applyDeviceConfiguration_kept)
  qed
  have e01: "consecutiveErrors s1 = consecutiveErrors s" by (simp add: s1_def)
  from assms obtain s2 where u: "updatePerformanceMetrics (r > 0) t a now s1 = Some s2"
    and rest: "(if r = 0 then Some (handleError ERROR_TIMEOUT now s2)
                else if learningMode s2 \<and> shouldTriggerAdjustment s2
                then do { (decision, s3) \<leftarrow> analyzePerformanceAndDecide now s2;
                          if shouldAdjust decision then Some (applyAIDecision now decision s3)
                          else Some s3 }
                else Some s2) = Some s'"
    by (auto simp add: requestFrom_def Let_def s1_def split: Option.bind_splits)
  from updatePerformanceMetrics_Some [OF u]
  have k12: "kept s1 s2" and e12: "consecutiveErrors s2 = (if r > 0 then 0 else consecutiveErrors s1 + 1)"
    by simp_all
  have k02: "kept s s2" using kept_trans [OF k01 k12] .
  show ?thesis
  proof (cases "r = 0")
    case True
    then have "s' = handleError ERROR_TIMEOUT now s2" using rest by simp
    then show ?thesis
      using True e12 e01 kept_trans [OF k02 handleError_kept]
      by (simp add: handleError_errors)
  next
    case False
    then have pos: "r > 0" by (simp add: word_neq_0_conv)
    show ?thesis
    proof (cases "learningMode s2 \<and> shouldTriggerAdjustment s2")
      case True
      with False rest have "(do { (decision, s3) \<leftarrow> analyzePerformanceAndDecide now s2;
                          if shouldAdjust decision then Some (applyAIDecision now decision s3)
                          else Some s3 }) = Some s'" by simp
      from decide_and_apply_Some [OF this] show ?thesis
        using False pos e12 kept_trans [OF k02] by auto
    next
      case F2: False
      with False rest have "s' = s2" by auto
      then show ?thesis using False pos e12 k02 by simp
    qed
  qed
qed

lemma requestFrom_returns:
  assumes "historyIndex s < 3"
  shows "\<exists>s'. requestFrom a r t now s = Some s'"
proof -
  define s1 where "s1 = (if adaptiveMode s then applyDeviceConfiguration a (s\<lparr>currentDeviceAddress := a\<rparr>)
                         else s\<lparr>currentDeviceAddress := a\<rparr>)"
  have "kept s s1"
  proof -
    have "kept s (s\<lparr>currentDeviceAddress := a\<rparr>)" by (simp add: kept_def)
    then show ?thesis unfolding s1_def
      by (auto intro: kept_trans applyDeviceConfiguration_kept)
  qed
  then have h1: "historyIndex s1 < 3" using assms by (simp add: kept_def)
  from updatePerformanceMetrics_few [OF h1]
  obtain s2 where u: "updatePerformanceMetrics (r > 0) t a now s1 = Some s2" by blast
  from updatePerformanceMetrics_Some [OF u] h1 have h2: "historyIndex s2 < 3"
    by (simp add: kept_def)
  from decide_and_apply_returns [OF h2] obtain s' where
    "(do { (decision, s3) \<leftarrow> analyzePerformanceAndDecide now s2;
            if shouldAdjust decision then Some (applyAIDecision now decision s3)
            else Some s3 }) = Some s'" by blast
  then show ?thesis
    using u by (simp add: requestFrom_def Let_def s1_def [symmetric])
qed

lemma endTransmission_Some:
  assumes "endTransmission r t now s = Some s'"
  shows "kept s s' \<and>
         consecutiveErrors s' =
           (if r \<noteq> 0 then (if consecutiveErrors s + 1 \<ge> 3 then 0 else consecutiveErrors s + 1)
            else 0)"
proof -
  from assms obtain s2 where
    u: "updatePerformanceMetrics (r = 0) t (currentDeviceAddress s) now s = Some s2"
    and rest: "(if r \<noteq> 0 then Some (handleError (classifyError r) now s2)
                else if learningMode s2 \<and> shouldTriggerAdjustment s2
                then do { (decision, s3) \<leftarrow> analyzePerformanceAndDecide now s2;
                          if shouldAdjust decision then Some (applyAIDecision now decision s3)
                          else Some s3 }
                else Some s2) = Some s'"
    by (auto simp add: endTransmission_def split: Option.bind_splits)
  from updatePerformanceMetrics_Some [OF u]
  have k02: "kept s s2"
    and e02: "consecutiveErrors s2 = (if r = 0 then 0 else consecutiveErrors s + 1)"
    by simp_all
  show ?thesis
  proof (cases "r = 0")
    case False
    then have "s' = handleError (classifyError r) now s2" using rest by simp
    then show ?thesis
      using False e02 kept_trans [OF k02 handleError_kept]
      by (simp add: handleError_errors)
  next
    case True
    show ?thesis
    proof (cases "learningMode s2 \<and> shouldTriggerAdjustment s2")
      case T2: True
      with True rest have "(do { (decision, s3) \<leftarrow> analyzePerformanceAndDecide now s2;
                          if shouldAdjust decision then Some (applyAIDecision now decision s3)
                          else Some s3 }) = Some s'" by simp
      from decide_and_apply_Some [OF this] show ?thesis
        using True e02 kept_trans [OF k02] by auto
    next
      case F2: False
      with True rest have "s' = s2" by auto
      then show ?thesis using True e02 k02 by simp
    qed
  qed
qed

lemma endTransmission_returns:
  assumes "historyIndex s < 3"
  shows "\<exists>s'. endTransmission r t now s = Some s'"
proof -
  from updatePerformanceMetrics_few [OF assms]
  obtain s2 where u: "updatePerformanceMetrics (r = 0) t (currentDeviceAddress s) now s = Some s2"
    by blast
  from updatePerformanceMetrics_Some [OF u] assms have h2: "historyIndex s2 < 3"
    by (simp add: kept_def)
  from decide_and_apply_returns [OF h2] obtain s' where
    "(do { (decision, s3) \<leftarrow> analyzePerformanceAndDecide now s2;
            if shouldAdjust decision then Some (applyAIDecision now decision s3)
            else Some s3 }) = Some s'" by blast
  then show ?thesis
    using u by (simp add: endTransmission_def)
qed

lemma forceOptimization_Some:
  assumes "forceOptimization now s = Some s'"
  shows "kept s s' \<and> consecutiveErrors s' = consecutiveErrors s"
proof -
  have k: "kept s (s\<lparr>lastAdjustmentTime := 0\<rparr>)" by (simp add: kept_def)
  show ?thesis
  proof (cases "successfulTransactions (metrics (currentConfig s)) > 0")
    case True
    with assms have "(do { (decision, s2) \<leftarrow> analyzePerformanceAndDecide now (s\<lparr>lastAdjustmentTime := 0\<rparr>);
             if shouldAdjust decision then Some (applyAIDecision now decision s2) else Some s2 })
           = Some s'"
      by (simp add: forceOptimization_def Let_def)
    from decide_and_apply_Some [OF this] show ?thesis
      using kept_trans [OF k] by auto
  next
    case False
    with assms have "s' = s\<lparr>lastAdjustmentTime := 0\<rparr>"
      by (auto simp add: forceOptimization_def Let_def)
    then show ?thesis using k by simp
  qed
qed

lemma forceOptimization_returns:
  assumes "historyIndex s < 3"
  shows "\<exists>s'. forceOptimization now s = Some s'"
proof -
  have "historyIndex (s\<lparr>lastAdjustmentTime := 0\<rparr>) < 3" using assms by simp
  from decide_and_apply_returns [OF this] obtain s' where
    "(do { (decision, s2) \<leftarrow> analyzePerformanceAndDecide now (s\<lparr>lastAdjustmentTime := 0\<rparr>);
            if shouldAdjust decision then Some (applyAIDecision now decision s2)
            else Some s2 }) = Some s'" by blast
  then show ?thesis
    by (simp add: forceOptimization_def Let_def)
qed

lemma scanBus_loop_kept:
  "kept s (snd (scanBus_loop probe as (n, s))) \<and>
   consecutiveErrors (snd (scanBus_loop probe as (n, s))) = consecutiveErrors s"
proof (induction as arbitrary: n s)
  case Nil
  show ?case by simp
next
  case (Cons a as)
  show ?case
  proof (cases "probe a = 0")
    case True
    define s1 where "s1 = (if findDeviceConfig s a = None then addDeviceConfig a s else s)"
    have k: "kept s s1" and e: "consecutiveErrors s1 = consecutiveErrors s"
      by (simp_all add: s1_def)
    from Cons.IH [where n = "n + 1" and s = s1] show ?thesis
      using True k e kept_trans [OF k] by (simp add: s1_def [symmetric])
  next
    case False
    with Cons.IH [where n = n and s = s] show ?thesis by simp
  qed
qed

lemma scanBus_kept:
  "kept s (snd (scanBus probe s))"
  "consecutiveErrors (snd (scanBus probe s)) = consecutiveErrors s"
  using scanBus_loop_kept [where s = s and probe = probe and n = 0] by (simp_all add: scanBus_def)

lemma testConfiguration_loop_kept:
  "kept s (snd (snd (testConfiguration_loop probe js (p, e, s)))) \<and>
   consecutiveErrors (snd (snd (testConfiguration_loop probe js (p, e, s)))) = consecutiveErrors s"
proof (induction js arbitrary: p e s)
  case Nil
  show ?case by simp
next
  case (Cons i js)
  show ?case
  proof (cases p)
    case False
    then show ?thesis by simp
  next
    case True
    show ?thesis
    proof (cases "probe i = 0")
      case T: True
      define s2 where "s2 = update_current_metrics
                      (\<lambda>m. m\<lparr>failedTransactions := failedTransactions m + ucast e\<rparr>)
                      (update_current_metrics
                          (\<lambda>m. m\<lparr>successfulTransactions := successfulTransactions m + 1\<rparr>) s)"
      have k: "kept s s2" and ee: "consecutiveErrors s2 = consecutiveErrors s"
        by (simp_all add: s2_def kept_def update_current_metrics_def)
      from Cons.IH [where p = p and e = e and s = s2] show ?thesis
        using True T k ee kept_trans [OF k] by (simp add: s2_def [symmetric] Let_def)
    next
      case F: False
      define s2 where "s2 = update_current_metrics
                      (\<lambda>m. m\<lparr>failedTransactions := failedTransactions m + ucast (e + 1)\<rparr>) s"
      have k: "kept s s2" and ee: "consecutiveErrors s2 = consecutiveErrors s"
        by (simp_all add: s2_def kept_def update_current_metrics_def)
      from Cons.IH [where p = "if e + 1 > 2 then False else p" and e = "e + 1" and s = s2] show ?thesis
        using True F k ee kept_trans [OF k] by (auto simp add: s2_def [symmetric] Let_def)
    qed
  qed
qed

lemma testConfiguration_kept:
  "kept s (snd (testConfiguration c r probe now s))"
  "consecutiveErrors (snd (testConfiguration c r probe now s)) = consecutiveErrors s"
proof -
  define s1 where "s1 = applyConfiguration
                      (s\<lparr>currentConfig := (currentConfig s)
                           \<lparr>clockSpeedStep := c, riseTimeStep := r,
                            clockSpeed := calculateValueFromStep (clockSpeedRange s) c,
                            riseTime := ucast (calculateValueFromStep (riseTimeRange s) r),
                            metrics := zero_metrics\<lparr>lastUpdateTime := now\<rparr>\<rparr>\<rparr>)"
  have k1: "kept s s1" and e1: "consecutiveErrors s1 = consecutiveErrors s"
    by (simp_all add: s1_def kept_def applyConfiguration_def)
  obtain p e s2 where l: "testConfiguration_loop probe [0..<unat (deviceCount s1)] (True, 0, s1) = (p, e, s2)"
    by (metis prod_cases3)
  from testConfiguration_loop_kept [where s = s1 and probe = probe and p = True and e = 0 and js = "[0..<unat (deviceCount s1)]"] l
  have k2: "kept s1 s2" and e2: "consecutiveErrors s2 = consecutiveErrors s1" by simp_all
  have k3: "kept s2 (applyConfiguration (s2\<lparr>currentConfig := currentConfig s\<rparr>))"
    by (simp add: kept_def applyConfiguration_def)
  have k02: "kept s s2" using kept_trans [OF k1 k2] .
  show "kept s (snd (testConfiguration c r probe now s))"
    using l k02 kept_trans [OF k02 k3]
    by (simp add: testConfiguration_def Let_def s1_def [symmetric])
  show "consecutiveErrors (snd (testConfiguration c r probe now s)) = consecutiveErrors s"
    using l e1 e2
    by (simp add: testConfiguration_def Let_def s1_def [symmetric])
qed

lemma scanAndOptimize_loop_Some:
  "scanAndOptimize_loop testProbe now ps (s, c, x) = Some (s', c', x') \<Longrightarrow>
   kept s s' \<and> consecutiveErrors s' = consecutiveErrors s"
proof (induction ps arbitrary: s c x)
  case Nil
  then show ?case by simp
next
  case (Cons p ps)
  obtain cs rs where p: "p = (cs, rs)" by (cases p)
  obtain passed s1 where t: "testConfiguration cs rs (testProbe cs rs) now s = (passed, s1)"
    by (cases "testConfiguration cs rs (testProbe cs rs) now s")
  from testConfiguration_kept [where s = s and c = cs and r = rs and probe = "testProbe cs rs" and now = now] t
  have k1: "kept s s1" and e1: "consecutiveErrors s1 = consecutiveErrors s" by simp_all
  from Cons.prems p t obtain c1 x1 where
    "scanAndOptimize_loop testProbe now ps (s1, c1, x1) = Some (s', c', x')"
    by (auto split: if_splits Option.bind_splits)
  from Cons.IH [OF this] show ?case
    using k1 e1 kept_trans [OF k1] by auto
qed

lemma scanAndOptimize_loop_returns:
  "historyIndex s < 3 \<Longrightarrow> \<exists>st. scanAndOptimize_loop testProbe now ps (s, c, x) = Some st"
proof (induction ps arbitrary: s c x)
  case Nil
  show ?case by simp
next
  case (Cons p ps)
  obtain cs rs where p: "p = (cs, rs)" by (cases p)
  obtain passed s1 where t: "testConfiguration cs rs (testProbe cs rs) now s = (passed, s1)"
    by (cases "testConfiguration cs rs (testProbe cs rs) now s")
  from testConfiguration_kept(1) [where s = s and c = cs and r = rs and probe = "testProbe cs rs" and now = now] t Cons.prems
  have h1: "historyIndex s1 < 3" by (simp add: kept_def)
  from calculatePerformanceScore_few [OF h1] obtain y where
    y: "calculatePerformanceScore s1 (metrics (currentConfig s1)) = Some y" by simp
  show ?case
    using p t y Cons.IH [OF h1] by simp
qed

lemma scanAndOptimize_Some:
  assumes "scanAndOptimize scanProbe testProbe now s = Some s'"
  shows "kept s s' \<and> consecutiveErrors s' = consecutiveErrors s"
proof -
  obtain n s1 where sb: "scanBus scanProbe s = (n, s1)" by (cases "scanBus scanProbe s")
  from scanBus_kept [where s = s and probe = scanProbe] sb
  have k1: "kept s s1" and e1: "consecutiveErrors s1 = consecutiveErrors s" by simp_all
  show ?thesis
  proof (cases "n = 0")
    case True
    with assms sb have "s' = s1" by (simp add: scanAndOptimize_def)
    then show ?thesis using k1 e1 by simp
  next
    case False
    with assms sb obtain s2 c x where
      l: "scanAndOptimize_loop testProbe now step_pairs (s1, currentConfig s1, 0) = Some (s2, c, x)"
      and r: "s' = saveCurrentAsBest (applyConfiguration (s2\<lparr>currentConfig := c\<rparr>))"
      by (auto simp add: scanAndOptimize_def split: Option.bind_splits)
    from scanAndOptimize_loop_Some [OF l]
    have k2: "kept s1 s2" and e2: "consecutiveErrors s2 = consecutiveErrors s1" by simp_all
    have k3: "kept s2 s'" and e3: "consecutiveErrors s' = consecutiveErrors s2"
      by (simp_all add: r kept_def saveCurrentAsBest_def applyConfiguration_def)
    show ?thesis
      using kept_trans [OF k1 kept_trans [OF k2 k3]] e1 e2 e3 by simp
  qed
qed

lemma scanAndOptimize_returns:
  assumes "historyIndex s < 3"
  shows "\<exists>s'. scanAndOptimize scanProbe testProbe now s = Some s'"
proof -
  obtain n s1 where sb: "scanBus scanProbe s = (n, s1)" by (cases "scanBus scanProbe s")
  from scanBus_kept(1) [where s = s and probe = scanProbe] sb assms have h1: "historyIndex s1 < 3"
    by (simp add: kept_def)
  from scanAndOptimize_loop_returns [OF h1] obtain st where
    "scanAndOptimize_loop testProbe now step_pairs (s1, currentConfig s1, 0) = Some st" by blast
  then show ?thesis using sb by (cases st) (simp add: scanAndOptimize_def)
qed


section \<open>Invariants of the reachable states\<close>

lemma kept_no_history: "kept s s' \<Longrightarrow> no_history s \<Longrightarrow> no_history s'"
  by (simp add: kept_def no_history_def)

lemma simple_operations_history:
  "no_history s \<Longrightarrow> no_history (begin_I2C now s)"
  "no_history s \<Longrightarrow> no_history (beginTransmission a s)"
  "no_history s \<Longrightarrow> no_history (enableLearning b s)"
  "no_history s \<Longrightarrow> no_history (enableAdaptiveMode b s)"
  "no_history s \<Longrightarrow> no_history (setAdaptationRate rate s)"
  "no_history s \<Longrightarrow> no_history (resetToDefaults now s)"
  "no_history (resetLearning now s)"
  "no_history s \<Longrightarrow> no_history (setClockSpeed hz s)"
  "no_history s \<Longrightarrow> no_history (setRiseTime ns s)"
  "no_history s \<Longrightarrow> no_history (setDeviceSpecificConfig a hz ns s)"
  "no_history s \<Longrightarrow> no_history (removeDeviceConfig a s)"
  "no_history s \<Longrightarrow> no_history (enableEmergencyRecovery b s)"
  "no_history s \<Longrightarrow> no_history (setCooldownPeriod ms s)"
  by (simp_all add: no_history_def begin_I2C_def beginTransmission_def enableLearning_def
      enableAdaptiveMode_def setAdaptationRate_def resetToDefaults_def resetLearning_def
      setClockSpeed_def setRiseTime_def setDeviceSpecificConfig_def removeDeviceConfig_def
      enableEmergencyRecovery_def setCooldownPeriod_def applyConfiguration_def
      update_current_metrics_def applyDeviceConfiguration_def addDeviceConfig_def Let_def
      split: option.splits prod.splits)

lemma simple_operations_errors:
  "consecutiveErrors (begin_I2C now s) = consecutiveErrors s"
  "consecutiveErrors (beginTransmission a s) = consecutiveErrors s"
  "consecutiveErrors (enableLearning b s) = consecutiveErrors s"
  "consecutiveErrors (enableAdaptiveMode b s) = consecutiveErrors s"
  "consecutiveErrors (setAdaptationRate rate s) = consecutiveErrors s"
  "consecutiveErrors (resetToDefaults now s) = 0"
  "consecutiveErrors (resetLearning now s) = 0"
  "consecutiveErrors (setClockSpeed hz s) = consecutiveErrors s"
  "consecutiveErrors (setRiseTime ns s) = consecutiveErrors s"
  "consecutiveErrors (setDeviceSpecificConfig a hz ns s) = consecutiveErrors s"
  "consecutiveErrors (removeDeviceConfig a s) = consecutiveErrors s"
  "consecutiveErrors (enableEmergencyRecovery b s) = consecutiveErrors s"
  "consecutiveErrors (setCooldownPeriod ms s) = consecutiveErrors s"
  by (simp_all add: begin_I2C_def beginTransmission_def enableLearning_def
      enableAdaptiveMode_def setAdaptationRate_def resetToDefaults_def resetLearning_def
      setClockSpeed_def setRiseTime_def setDeviceSpecificConfig_def removeDeviceConfig_def
      enableEmergencyRecovery_def setCooldownPeriod_def applyConfiguration_def
      update_current_metrics_def applyDeviceConfiguration_def addDeviceConfig_def Let_def
      split: option.splits prod.splits)

lemma below_threshold_step:
  "(c::u8) < 3 \<Longrightarrow> (if c + 1 \<ge> 3 then 0 else c + 1) < 3"
  by auto

lemma perform_no_history:
  assumes "perform oper s = Some s'" and "no_history s"
  shows "no_history s'"
proof (cases oper)
  case (RequestFrom a r t now)
  with assms(1) requestFrom_Some [of a r t now s s'] assms(2) show ?thesis
    by (auto intro: kept_no_history)
next
  case (EndTransmission r t now)
  with assms(1) endTransmission_Some [of r t now s s'] assms(2) show ?thesis
    by (auto intro: kept_no_history)
next
  case (ForceOptimization now)
  with assms(1) forceOptimization_Some [of now s s'] assms(2) show ?thesis
    by (auto intro: kept_no_history)
next
  case (ScanAndOptimize scanProbe testProbe now)
  with assms(1) scanAndOptimize_Some [of scanProbe testProbe now s s'] assms(2) show ?thesis
    by (auto intro: kept_no_history)
next
  case (TestConfiguration c r probe now)
  with assms testConfiguration_kept(1) [where s = s and c = c and r = r and probe = probe and now = now] show ?thesis
    by (auto intro: kept_no_history)
next
  case (ScanBus probe)
  with assms scanBus_kept(1) [where s = s and probe = probe] show ?thesis
    by (auto intro: kept_no_history)
qed (use assms in \<open>auto simp add: simple_operations_history\<close>)

lemma perform_below_threshold:
  assumes "perform oper s = Some s'" and "consecutiveErrors s < 3"
  shows "consecutiveErrors s' < 3"
proof (cases oper)
  case (RequestFrom a r t now)
  with assms(1) requestFrom_Some [of a r t now s s'] below_threshold_step [OF assms(2)]
  show ?thesis by (auto split: if_splits)
next
  case (EndTransmission r t now)
  with assms(1) endTransmission_Some [of r t now s s'] below_threshold_step [OF assms(2)]
  show ?thesis by (auto split: if_splits)
next
  case (ForceOptimization now)
  with assms forceOptimization_Some [of now s s'] show ?thesis by auto
next
  case (ScanAndOptimize scanProbe testProbe now)
  with assms scanAndOptimize_Some [of scanProbe testProbe now s s'] show ?thesis by auto
next
  case (TestConfiguration c r probe now)
  with assms testConfiguration_kept(2) [where s = s and c = c and r = r and probe = probe and now = now] show ?thesis by auto
next
  case (ScanBus probe)
  with assms scanBus_kept(2) [where s = s and probe = probe] show ?thesis by auto
qed (use assms in \<open>auto simp add: simple_operations_errors\<close>)

lemma perform_returns:
  assumes "historyIndex s < 3"
  shows "\<exists>s'. perform oper s = Some s'"
  using assms requestFrom_returns endTransmission_returns forceOptimization_returns
    scanAndOptimize_returns
  by (cases oper) simp_all

lemma constructor_no_history: "no_history constructor"
  by (simp add: no_history_def constructor_def Let_def)

lemma reachable_no_history: "reachable s \<Longrightarrow> no_history s"
  by (induction rule: reachable.induct) (auto intro: constructor_no_history perform_no_history)

lemma reachable_below_threshold: "reachable s \<Longrightarrow> consecutiveErrors s < 3"
proof (induction rule: reachable.induct)
  case reachable_constructor
  show ?case by (simp add: constructor_def Let_def)
next
  case (reachable_perform s oper s')
  then show ?case using perform_below_threshold by blast
qed


lemma shiftPerformanceHistory_counts: "historyIndex (shiftPerformanceHistory constructor) = 1"
  by (simp add: shiftPerformanceHistory_def constructor_def Let_def)

lemma decisions_without_trend:
  assumes "historyIndex s < 3"
  shows "\<exists>d s'. analyzePerformanceAndDecide now s = Some (d, s')
           \<and> reason d \<noteq> ''Positive trend, optimizing speed''
           \<and> reason d \<noteq> ''Moderate optimization''"
  using assms
  by (simp add: analyzePerformanceAndDecide_def calculatePerformanceScore_few analyzeTrend_few
      Let_def no_adjustment_def)

lemma endTransmission_failure_constructor:
  "endTransmission 2 150 1000 constructor = Some after_failure"
proof -
  define s4 where "s4 = updatePerformanceMetrics_counters False 150 0 1000 constructor"
  have "successfulTransactions (metrics (currentConfig s4)) = 0"
    by (simp add: s4_def updatePerformanceMetrics_counters_def update_current_metrics_def
        constructor_def zero_metrics_def addDeviceConfig_def Let_def
        split: option.splits prod.splits)
  then have "calculatePerformanceScore s4 (metrics (currentConfig s4)) = Some 0"
    by (simp add: calculatePerformanceScore_unfold)
  moreover have "currentDeviceAddress constructor = 0" by (simp add: constructor_def Let_def)
  ultimately show ?thesis
    by (simp add: endTransmission_def updatePerformanceMetrics_def Let_def s4_def [symmetric]
        after_failure_def classifyError_def)
qed

lemma reachable_after_failure: "reachable after_failure"
proof -
  have "perform (EndTransmission 2 150 1000) constructor = Some after_failure"
    by (simp add: endTransmission_failure_constructor)
  then show ?thesis using reachable_constructor reachable_perform by blast
qed

lemma after_failure_errors: "consecutiveErrors after_failure = 1"
  by (simp add: after_failure_def handleError_errors constructor_def Let_def word_le_nat_alt)


text \<open>
  Claim C9. No public operation records a snapshot: in every reachable state
  \<open>historyIndex\<close> is 0 and \<open>performanceHistory\<close> is as the constructor zeroed it, so
  \<open>analyzeTrend\<close> returns 0, \<open>calculateStabilityScore\<close> returns 50, and the decision
  engine returns a decision that is neither "Positive trend, optimizing speed" nor
  "Moderate optimization".
\<close>

theorem history_never_recorded:
  assumes "reachable s"
  shows "historyIndex s = 0 \<and>
         performanceHistory s = replicate LEARNING_WINDOW_SIZE zero_metrics \<and>
         analyzeTrend s = Some 0 \<and>
         calculateStabilityScore s = Some 50 \<and>
         (\<exists>d s'. analyzePerformanceAndDecide now s = Some (d, s')
            \<and> reason d \<noteq> ''Positive trend, optimizing speed''
            \<and> reason d \<noteq> ''Moderate optimization'')"
proof -
  from reachable_no_history [OF assms]
  have h: "historyIndex s = 0" and p: "performanceHistory s = replicate LEARNING_WINDOW_SIZE zero_metrics"
    by (simp_all add: no_history_def)
  from h have lt: "historyIndex s < 3" by simp
  show ?thesis
    using h p analyzeTrend_few [OF lt] calculateStabilityScore_few [OF lt]
      decisions_without_trend [OF lt] by simp
qed

theorem history_never_recorded_witness:
  "reachable after_failure \<and>
   historyIndex after_failure = 0 \<and>
   performanceHistory after_failure = replicate LEARNING_WINDOW_SIZE zero_metrics \<and>
   analyzeTrend after_failure = Some 0 \<and>
   calculateStabilityScore after_failure = Some 50 \<and>
   (\<exists>d s'. analyzePerformanceAndDecide 6000 after_failure = Some (d, s')
      \<and> reason d \<noteq> ''Positive trend, optimizing speed''
      \<and> reason d \<noteq> ''Moderate optimization'')"
  using reachable_after_failure history_never_recorded [OF reachable_after_failure, of 6000]
  by simp


text \<open>
  Claim C10. In every reachable state, that is at the return of every public operation,
  \<open>consecutiveErrors\<close> is below \<open>ERROR_THRESHOLD\<close>, and \<open>isInRecoveryMode\<close> is false.
\<close>

theorem never_in_recovery_mode:
  assumes "reachable s"
  shows "consecutiveErrors s < ERROR_THRESHOLD \<and> \<not> isInRecoveryMode s"
  using reachable_below_threshold [OF assms] by (simp add: isInRecoveryMode_def)

theorem never_in_recovery_mode_witness:
  "reachable after_failure \<and> consecutiveErrors after_failure = 1 \<and>
   consecutiveErrors after_failure < ERROR_THRESHOLD \<and> \<not> isInRecoveryMode after_failure"
  using reachable_after_failure never_in_recovery_mode [OF reachable_after_failure]
    after_failure_errors
  by simp


section \<open>Properties of the recovery\<close>

text \<open>
  Claim C3. When \<open>handleError\<close> finds \<open>consecutiveErrors\<close> at the threshold, it runs one
  recovery function on the state in which the error has been recorded: the emergency
  procedure if emergency recovery is enabled, else the adaptive recovery if adaptive
  mode is on, else the incremental recovery. Afterwards \<open>consecutiveErrors\<close> is 0, and
  the configuration has been pushed to the hardware once (not at all by the incremental
  recovery when the clock step is 0 already).
\<close>

theorem one_recovery_tier_per_breach:
  assumes "consecutiveErrors s \<ge> ERROR_THRESHOLD"
  shows "handleError e now s =
           (let s1 = updateErrorHistory e (s\<lparr>lastError := e, lastErrorTime := now\<rparr>)
            in if emergencyRecovery s then emergencyRecoveryProcedure now s1
               else if adaptiveMode s then adaptiveRecovery now s1
               else incrementalRecovery s1) \<and>
         consecutiveErrors (handleError e now s) = 0 \<and>
         length (hardwareLog (handleError e now s)) =
           (if \<not> emergencyRecovery s \<and> \<not> adaptiveMode s \<and> clockSpeedStep (currentConfig s) = 0
            then length (hardwareLog s) else Suc (length (hardwareLog s)))"
proof -
  define s1 where "s1 = updateErrorHistory e (s\<lparr>lastError := e, lastErrorTime := now\<rparr>)"
  have f: "consecutiveErrors s1 = consecutiveErrors s" "emergencyRecovery s1 = emergencyRecovery s"
    "adaptiveMode s1 = adaptiveMode s" "hardwareLog s1 = hardwareLog s"
    "currentConfig s1 = currentConfig s"
    by (simp_all add: s1_def updateErrorHistory_def)
  have sel: "handleError e now s =
           (if emergencyRecovery s then emergencyRecoveryProcedure now s1
               else if adaptiveMode s then adaptiveRecovery now s1
               else incrementalRecovery s1)"
    using assms f by (simp add: handleError_def Let_def s1_def [symmetric])
  have zero: "consecutiveErrors (handleError e now s) = 0"
    using assms by (simp add: handleError_errors)
  have len: "length (hardwareLog (handleError e now s)) =
           (if \<not> emergencyRecovery s \<and> \<not> adaptiveMode s \<and> clockSpeedStep (currentConfig s) = 0
            then length (hardwareLog s) else Suc (length (hardwareLog s)))"
    unfolding sel using f
    by (auto simp add: emergencyRecoveryProcedure_result(7) adaptiveRecovery_log
        incrementalRecovery_log word_neq_0_conv)
  show ?thesis using sel zero len by (simp add: Let_def s1_def)
qed

theorem one_recovery_tier_per_breach_witness:
  "consecutiveErrors breach_state \<ge> ERROR_THRESHOLD \<and>
   handleError ERROR_TIMEOUT 1000 breach_state =
     (let s1 = updateErrorHistory ERROR_TIMEOUT
                 (breach_state\<lparr>lastError := ERROR_TIMEOUT, lastErrorTime := 1000\<rparr>)
      in if emergencyRecovery breach_state then emergencyRecoveryProcedure 1000 s1
         else if adaptiveMode breach_state then adaptiveRecovery 1000 s1
         else incrementalRecovery s1) \<and>
   consecutiveErrors (handleError ERROR_TIMEOUT 1000 breach_state) = 0 \<and>
   length (hardwareLog (handleError ERROR_TIMEOUT 1000 breach_state)) =
     (if \<not> emergencyRecovery breach_state \<and> \<not> adaptiveMode breach_state
         \<and> clockSpeedStep (currentConfig breach_state) = 0
      then length (hardwareLog breach_state) else Suc (length (hardwareLog breach_state)))"
proof -
  have b: "consecutiveErrors breach_state \<ge> ERROR_THRESHOLD"
    by (simp add: breach_state_def)
  show ?thesis
    by (rule conjI [OF b one_recovery_tier_per_breach [OF b]])
qed


lemma failed_transaction_shape:
  assumes "failed_transaction oper" and "historyIndex s < 3"
  shows "\<exists>e now s2. perform oper s = Some (handleError e now s2) \<and> kept s s2
           \<and> consecutiveErrors s2 = consecutiveErrors s + 1"
proof (cases oper)
  case (RequestFrom a r t now)
  with assms(1) have r: "r = 0" by simp
  define s1 where "s1 = (if adaptiveMode s then applyDeviceConfiguration a (s\<lparr>currentDeviceAddress := a\<rparr>)
                         else s\<lparr>currentDeviceAddress := a\<rparr>)"
  have k1: "kept s s1"
  proof -
    have "kept s (s\<lparr>currentDeviceAddress := a\<rparr>)" by (simp add: kept_def)
    then show ?thesis unfolding s1_def
      by (auto intro: kept_trans applyDeviceConfiguration_kept)
  qed
  have e1: "consecutiveErrors s1 = consecutiveErrors s" by (simp add: s1_def)
  have h1: "historyIndex s1 < 3" using k1 assms(2) by (simp add: kept_def)
  from updatePerformanceMetrics_few [OF h1]
  obtain s2 where u: "updatePerformanceMetrics False t a now s1 = Some s2" by blast
  from updatePerformanceMetrics_Some [OF u]
  have k2: "kept s1 s2" and e2: "consecutiveErrors s2 = consecutiveErrors s1 + 1" by simp_all
  have "perform oper s = Some (handleError ERROR_TIMEOUT now s2)"
    using RequestFrom r u by (simp add: requestFrom_def Let_def s1_def [symmetric])
  then show ?thesis using kept_trans [OF k1 k2] e1 e2 by auto
next
  case (EndTransmission r t now)
  with assms(1) have r: "r \<noteq> 0" by simp
  from updatePerformanceMetrics_few [OF assms(2)]
  obtain s2 where u: "updatePerformanceMetrics False t (currentDeviceAddress s) now s = Some s2"
    by blast
  from updatePerformanceMetrics_Some [OF u]
  have k2: "kept s s2" and e2: "consecutiveErrors s2 = consecutiveErrors s + 1" by simp_all
  have "perform oper s = Some (handleError (classifyError r) now s2)"
    using EndTransmission r u by (simp add: endTransmission_def)
  then show ?thesis using k2 e2 by auto
qed (use assms(1) in simp_all)

lemma failed_transaction_below:
  assumes "failed_transaction oper" and "historyIndex s < 3" and "consecutiveErrors s + 1 < 3"
  shows "\<exists>s'. perform oper s = Some s' \<and> kept s s'
           \<and> consecutiveErrors s' = consecutiveErrors s + 1"
proof -
  from failed_transaction_shape [OF assms(1,2)] obtain e now s2 where
    p: "perform oper s = Some (handleError e now s2)" and k: "kept s s2"
    and c: "consecutiveErrors s2 = consecutiveErrors s + 1" by blast
  have "\<not> 3 \<le> consecutiveErrors s + 1" using assms(3) by (simp add: not_le)
  then have "consecutiveErrors (handleError e now s2) = consecutiveErrors s + 1"
    using c by (simp add: handleError_errors)
  then show ?thesis using p kept_trans [OF k handleError_kept] by auto
qed

lemma failed_transaction_emergency:
  assumes "failed_transaction oper" and "historyIndex s < 3"
    and "consecutiveErrors s + 1 \<ge> 3" and "emergencyRecovery s"
  shows "\<exists>s'. perform oper s = Some s' \<and>
           clockSpeedStep (currentConfig s') = 0 \<and>
           riseTimeStep (currentConfig s') = 19 \<and>
           \<not> learningMode s' \<and> adjustmentCooldown s' = 15000 \<and> consecutiveErrors s' = 0"
proof -
  from failed_transaction_shape [OF assms(1,2)] obtain e now s2 where
    p: "perform oper s = Some (handleError e now s2)" and k: "kept s s2"
    and c: "consecutiveErrors s2 = consecutiveErrors s + 1" by blast
  have em: "emergencyRecovery s2" using k assms(4) by (simp add: kept_def)
  have "handleError e now s2 =
          emergencyRecoveryProcedure now
            (updateErrorHistory e (s2\<lparr>lastError := e, lastErrorTime := now\<rparr>))"
    using c assms(3) em by (simp add: handleError_def Let_def updateErrorHistory_def)
  then show ?thesis using p by (simp add: emergencyRecoveryProcedure_result)
qed


text \<open>
  Claim C6. Three failed transactions in a row, starting with \<open>consecutiveErrors\<close> at 0
  and with emergency recovery enabled, all return, and leave the clock step at 0, the
  rise-time step at \<open>DYNAMIC_RANGE_STEPS - 1\<close>, learning disabled, the cooldown at 15000
  ms and \<open>consecutiveErrors\<close> at 0. In the example the cooldown is 5000 ms before.
\<close>

theorem three_failures_emergency:
  assumes "failed_transaction o1" and "failed_transaction o2" and "failed_transaction o3"
    and "consecutiveErrors s = 0" and "emergencyRecovery s" and "historyIndex s < 3"
  shows "\<exists>s1 s2 s3. perform o1 s = Some s1 \<and> perform o2 s1 = Some s2 \<and> perform o3 s2 = Some s3 \<and>
           clockSpeedStep (currentConfig s3) = 0 \<and>
           riseTimeStep (currentConfig s3) = DYNAMIC_RANGE_STEPS - 1 \<and>
           \<not> learningMode s3 \<and> adjustmentCooldown s3 = 15000 \<and> consecutiveErrors s3 = 0"
proof -
  have b0: "consecutiveErrors s + 1 < 3" using assms(4) by simp
  from failed_transaction_below [OF assms(1,6) b0] obtain s1 where
    p1: "perform o1 s = Some s1" and k1: "kept s s1" and c1: "consecutiveErrors s1 = 1"
    using assms(4) by auto
  have h1: "historyIndex s1 < 3" and e1: "emergencyRecovery s1"
    using k1 assms(5,6) by (simp_all add: kept_def)
  have b1: "consecutiveErrors s1 + 1 < 3" using c1 by simp
  from failed_transaction_below [OF assms(2) h1 b1] obtain s2 where
    p2: "perform o2 s1 = Some s2" and k2: "kept s1 s2" and c2: "consecutiveErrors s2 = 2"
    using c1 by auto
  have h2: "historyIndex s2 < 3" and e2: "emergencyRecovery s2"
    using k2 h1 e1 by (simp_all add: kept_def)
  have b2: "consecutiveErrors s2 + 1 \<ge> 3" using c2 by simp
  from failed_transaction_emergency [OF assms(3) h2 b2 e2] obtain s3 where
    "perform o3 s2 = Some s3" "clockSpeedStep (currentConfig s3) = 0"
    "riseTimeStep (currentConfig s3) = 19" "\<not> learningMode s3"
    "adjustmentCooldown s3 = 15000" "consecutiveErrors s3 = 0" by blast
  then show ?thesis using p1 p2 by simp
qed

theorem three_failures_emergency_witness:
  "failed_transaction (RequestFrom 16 0 150 1000) \<and>
   failed_transaction (EndTransmission 2 150 1200) \<and>
   failed_transaction (RequestFrom 16 0 150 1400) \<and>
   consecutiveErrors constructor = 0 \<and> emergencyRecovery constructor \<and>
   historyIndex constructor < 3 \<and> adjustmentCooldown constructor = 5000 \<and>
   (\<exists>s1 s2 s3. perform (RequestFrom 16 0 150 1000) constructor = Some s1 \<and>
      perform (EndTransmission 2 150 1200) s1 = Some s2 \<and>
      perform (RequestFrom 16 0 150 1400) s2 = Some s3 \<and>
      clockSpeedStep (currentConfig s3) = 0 \<and>
      riseTimeStep (currentConfig s3) = DYNAMIC_RANGE_STEPS - 1 \<and>
      \<not> learningMode s3 \<and> adjustmentCooldown s3 = 15000 \<and> consecutiveErrors s3 = 0)"
proof -
  have f1: "failed_transaction (RequestFrom 16 0 150 1000)"
    and f2: "failed_transaction (EndTransmission 2 150 1200)"
    and f3: "failed_transaction (RequestFrom 16 0 150 1400)" by simp_all
  have c: "consecutiveErrors constructor = 0" and e: "emergencyRecovery constructor"
    and h: "historyIndex constructor < 3" and d: "adjustmentCooldown constructor = 5000"
    by (simp_all add: constructor_def Let_def)
  show ?thesis
    using f1 f2 f3 c e h d three_failures_emergency [OF f1 f2 f3 c e h] by simp
qed


section \<open>Device overrides\<close>

lemma le_19_less_20: "(x::u8) \<le> 19 \<Longrightarrow> x < 20"
  by (simp add: word_le_nat_alt word_less_nat_alt)

lemma calculateStepFromValue_valid: "isStepValid (calculateStepFromValue rng v)"
  by (simp add: calculateStepFromValue_def isStepValid_def Let_def min_def le_19_less_20)

text \<open>
  For a registered address, \<open>setDeviceSpecificConfig\<close> leaves the current and the best
  configuration, the device count, the hardware and every other device entry as they
  are.
\<close>

lemma setDeviceSpecificConfig_frame:
  assumes "findDeviceConfig s a = Some i"
  shows "currentConfig (setDeviceSpecificConfig a hz ns s) = currentConfig s \<and>
         bestConfig (setDeviceSpecificConfig a hz ns s) = bestConfig s \<and>
         deviceCount (setDeviceSpecificConfig a hz ns s) = deviceCount s \<and>
         hardwareLog (setDeviceSpecificConfig a hz ns s) = hardwareLog s \<and>
         (\<forall>j. j \<noteq> i \<longrightarrow> deviceConfigs (setDeviceSpecificConfig a hz ns s) ! j = deviceConfigs s ! j)"
  using assms
  by (simp add: setDeviceSpecificConfig_def Let_def calculateStepFromValue_valid)

text \<open>It writes the two static ranges.\<close>

lemma setDeviceSpecificConfig_ranges:
  assumes "findDeviceConfig s a = Some i"
  shows "clockSpeedRange (setDeviceSpecificConfig a hz ns s) =
           updateDynamicRange (clockSpeedRange s) (calculateStepFromValue (clockSpeedRange s) hz) \<and>
         riseTimeRange (setDeviceSpecificConfig a hz ns s) =
           updateDynamicRange (riseTimeRange s)
             (calculateStepFromValue (riseTimeRange s) (ucast ns))"
  using assms
  by (simp add: setDeviceSpecificConfig_def Let_def calculateStepFromValue_valid)

text \<open>
  Claim C2. With address 16 registered, \<open>setDeviceSpecificConfig(16, 400000, 100)\<close>
  leaves \<open>currentConfig\<close> as it is but moves the clock-speed range from step 0 and value
  100000 to step 1 and value 255263, and the rise-time range from step 7 and value 125
  to step 5 and value 95: the two static ranges do not stay unchanged.
\<close>

theorem device_override_writes_ranges:
  "findDeviceConfig registered_state 16 = Some 0 \<and>
   current_step (clockSpeedRange registered_state) = 0 \<and>
   current_value (clockSpeedRange registered_state) = 100000 \<and>
   current_step (riseTimeRange registered_state) = 7 \<and>
   current_value (riseTimeRange registered_state) = 125 \<and>
   current_step (clockSpeedRange (setDeviceSpecificConfig 16 400000 100 registered_state)) = 1 \<and>
   current_value (clockSpeedRange (setDeviceSpecificConfig 16 400000 100 registered_state)) = 255263 \<and>
   current_step (riseTimeRange (setDeviceSpecificConfig 16 400000 100 registered_state)) = 5 \<and>
   current_value (riseTimeRange (setDeviceSpecificConfig 16 400000 100 registered_state)) = 95 \<and>
   currentConfig (setDeviceSpecificConfig 16 400000 100 registered_state) = currentConfig registered_state"
  by code_simp

end
